theory Spec2Isabelle
  imports Main
begin

section \<open>CIDR validation\<close>

text \<open>
  \<open>validate_cidr\<close> hands its argument to \<open>ipaddress.IPv4Network\<close> of the Python
  standard library (strict mode, the default) and turns every \<open>ValueError\<close> into an
  \<open>argparse.ArgumentTypeError\<close>. The library code that decides acceptance is embedded
  function by function below, under the library's own names. Python integers are
  unbounded and are modelled by \<open>int\<close>.

  A Python \<open>str\<close> is modelled by \<open>string\<close>. A character outside ASCII is rejected by
  every \<open>isascii()\<close> test of the library, exactly as any 8-bit character that is not a
  decimal digit is rejected here.
\<close>

datatype ip_error = AddressValueError | NetmaskValueError | ValueError

datatype arg_error = ArgumentTypeError string

text \<open>\<open>s.split(sep)\<close> for a one-character separator: never empty, \<open>''.split(sep) = ['']\<close>.\<close>

fun py_split :: "char \<Rightarrow> string \<Rightarrow> string list" where
  "py_split sep [] = [[]]"
| "py_split sep (x # xs) =
     (if x = sep then [] # py_split sep xs
      else (case py_split sep xs of [] \<Rightarrow> [[x]] | p # ps \<Rightarrow> (x # p) # ps))"

text \<open>\<open>s.isascii() and s.isdigit()\<close>; \<open>isdigit\<close> is false on the empty string.\<close>

definition is_ascii_digit :: "char \<Rightarrow> bool" where
  "is_ascii_digit c = (c \<in> set ''0123456789'')"

definition isascii_isdigit :: "string \<Rightarrow> bool" where
  "isascii_isdigit s = (s \<noteq> [] \<and> list_all is_ascii_digit s)"

text \<open>The value of a string of decimal digits, as \<open>int(s, 10)\<close> computes it.\<close>

definition digit_val :: "char \<Rightarrow> int" where
  "digit_val c = int (of_char c) - 48"

definition decimal :: "string \<Rightarrow> int" where
  "decimal s = foldl (\<lambda>acc c. 10 * acc + digit_val c) 0 s"

text \<open>
  \<open>int(s)\<close> on a string of ASCII digits. Interpreters that limit the length of
  decimal strings raise \<open>ValueError\<close> when the string has more than 640 digits and more
  than \<open>max_str_digits\<close> of them; \<open>max_str_digits = 0\<close> switches the limit off
  (\<open>sys.set_int_max_str_digits\<close>; the default is 4300).
\<close>

definition py_int :: "nat \<Rightarrow> string \<Rightarrow> ip_error + int" where
  "py_int max_str_digits s =
     (if 640 < length s \<and> 0 < max_str_digits \<and> max_str_digits < length s
      then Inl ValueError else Inr (decimal s))"

text \<open>\<open>IPv4Address._parse_octet\<close>\<close>

definition parse_octet :: "string \<Rightarrow> ip_error + int" where
  "parse_octet octet_str =
     (if octet_str = [] then Inl ValueError
      else if \<not> isascii_isdigit octet_str then Inl ValueError
      else if 3 < length octet_str then Inl ValueError
      else if octet_str \<noteq> ''0'' \<and> hd octet_str = CHR ''0'' then Inl ValueError
      else if 255 < decimal octet_str then Inl ValueError
      else Inr (decimal octet_str))"

text \<open>
  \<open>int.from_bytes(map(_parse_octet, octets), 'big')\<close>: the octets are parsed from left
  to right and the first failure is raised.
\<close>

fun parse_octets :: "string list \<Rightarrow> ip_error + int list" where
  "parse_octets [] = Inr []"
| "parse_octets (s # ss) =
     (case parse_octet s of
        Inl e \<Rightarrow> Inl e
      | Inr b \<Rightarrow> (case parse_octets ss of Inl e \<Rightarrow> Inl e | Inr bs \<Rightarrow> Inr (b # bs)))"

definition from_bytes_big :: "int list \<Rightarrow> int" where
  "from_bytes_big bs = foldl (\<lambda>acc b. 256 * acc + b) 0 bs"

text \<open>\<open>IPv4Address._ip_int_from_string\<close>\<close>

definition ip_int_from_string :: "string \<Rightarrow> ip_error + int" where
  "ip_int_from_string ip_str =
     (if ip_str = [] then Inl AddressValueError
      else let octets = py_split CHR ''.'' ip_str in
        if length octets \<noteq> 4 then Inl AddressValueError
        else (case parse_octets octets of
                Inl e \<Rightarrow> Inl AddressValueError
              | Inr bs \<Rightarrow> Inr (from_bytes_big bs)))"

text \<open>\<open>IPv4Address(addr)\<close> for a string argument; the value is the address as an integer.\<close>

definition IPv4Address :: "string \<Rightarrow> ip_error + int" where
  "IPv4Address addr_str =
     (if CHR ''/'' \<in> set addr_str then Inl AddressValueError
      else ip_int_from_string addr_str)"

text \<open>\<open>_split_optional_netmask\<close>\<close>

definition split_optional_netmask :: "string \<Rightarrow> ip_error + string list" where
  "split_optional_netmask address =
     (let addr = py_split CHR ''/'' address in
      if 2 < length addr then Inl AddressValueError else Inr addr)"

text \<open>
  \<open>_split_addr_prefix\<close> for a string argument: the mask is the text after the slash,
  or the integer 32 when there is no slash.
\<close>

datatype mask_arg = MaskInt int | MaskStr string

definition max_prefixlen :: int where
  "max_prefixlen = 32"

definition ALL_ONES :: int where
  "ALL_ONES = 2 ^ 32 - 1"

definition split_addr_prefix :: "string \<Rightarrow> ip_error + string \<times> mask_arg" where
  "split_addr_prefix address =
     (case split_optional_netmask address of
        Inl e \<Rightarrow> Inl e
      | Inr parts \<Rightarrow>
          (case parts of
             a # m # _ \<Rightarrow> Inr (a, MaskStr m)
           | [a] \<Rightarrow> Inr (a, MaskInt max_prefixlen)
           | [] \<Rightarrow> Inl ValueError))"

text \<open>\<open>int.bit_length()\<close>: the number of bits of the absolute value.\<close>

fun bits_of_nat :: "nat \<Rightarrow> nat" where
  "bits_of_nat n = (if n = 0 then 0 else Suc (bits_of_nat (n div 2)))"

definition bit_length :: "int \<Rightarrow> int" where
  "bit_length n = int (bits_of_nat (nat \<bar>n\<bar>))"

text \<open>\<open>_count_righthand_zero_bits\<close>\<close>

definition count_righthand_zero_bits :: "int \<Rightarrow> int \<Rightarrow> int" where
  "count_righthand_zero_bits number bits =
     (if number = 0 then bits
      else min bits (bit_length (and (not number) (number - 1))))"

text \<open>\<open>_ip_int_from_prefix\<close>\<close>

definition ip_int_from_prefix :: "int \<Rightarrow> int" where
  "ip_int_from_prefix prefixlen = xor ALL_ONES (drop_bit (nat prefixlen) ALL_ONES)"

text \<open>\<open>_prefix_from_ip_int\<close>\<close>

definition prefix_from_ip_int :: "int \<Rightarrow> ip_error + int" where
  "prefix_from_ip_int ip_int =
     (let trailing_zeroes = count_righthand_zero_bits ip_int max_prefixlen;
          prefixlen = max_prefixlen - trailing_zeroes;
          leading_ones = drop_bit (nat trailing_zeroes) ip_int;
          all_ones = push_bit (nat prefixlen) 1 - 1
      in if leading_ones \<noteq> all_ones then Inl ValueError else Inr prefixlen)"

text \<open>\<open>_prefix_from_prefix_string\<close>\<close>

definition prefix_from_prefix_string :: "nat \<Rightarrow> string \<Rightarrow> ip_error + int" where
  "prefix_from_prefix_string max_str_digits prefixlen_str =
     (if \<not> isascii_isdigit prefixlen_str then Inl NetmaskValueError
      else (case py_int max_str_digits prefixlen_str of
              Inl e \<Rightarrow> Inl NetmaskValueError
            | Inr prefixlen \<Rightarrow>
                if \<not> (0 \<le> prefixlen \<and> prefixlen \<le> max_prefixlen) then Inl NetmaskValueError
                else Inr prefixlen))"

text \<open>\<open>_prefix_from_ip_string\<close>: a dotted netmask first, then a dotted hostmask.\<close>

definition prefix_from_ip_string :: "string \<Rightarrow> ip_error + int" where
  "prefix_from_ip_string ip_str =
     (case ip_int_from_string ip_str of
        Inl e \<Rightarrow> Inl NetmaskValueError
      | Inr ip_int \<Rightarrow>
          (case prefix_from_ip_int ip_int of
             Inr p \<Rightarrow> Inr p
           | Inl e \<Rightarrow>
               (case prefix_from_ip_int (xor ip_int ALL_ONES) of
                  Inr p \<Rightarrow> Inr p
                | Inl e \<Rightarrow> Inl NetmaskValueError)))"

text \<open>
  \<open>IPv4Network._make_netmask\<close>; the result is (netmask, prefix length). The library
  memoises the result per argument, which does not change it.
\<close>

definition make_netmask :: "nat \<Rightarrow> mask_arg \<Rightarrow> ip_error + int \<times> int" where
  "make_netmask max_str_digits arg =
     (case (case arg of
              MaskInt prefixlen \<Rightarrow>
                if \<not> (0 \<le> prefixlen \<and> prefixlen \<le> max_prefixlen) then Inl NetmaskValueError
                else Inr prefixlen
            | MaskStr s \<Rightarrow>
                (case prefix_from_prefix_string max_str_digits s of
                   Inr p \<Rightarrow> Inr p
                 | Inl e \<Rightarrow> prefix_from_ip_string s)) of
        Inl e \<Rightarrow> Inl e
      | Inr prefixlen \<Rightarrow> Inr (ip_int_from_prefix prefixlen, prefixlen))"

text \<open>
  \<open>IPv4Network(address)\<close> with \<open>strict=True\<close>; the value is
  (network address, netmask, prefix length).
\<close>

definition IPv4Network :: "nat \<Rightarrow> string \<Rightarrow> ip_error + int \<times> int \<times> int" where
  "IPv4Network max_str_digits address =
     (case split_addr_prefix address of
        Inl e \<Rightarrow> Inl e
      | Inr (addr, netmask_arg) \<Rightarrow>
          (case IPv4Address addr of
             Inl e \<Rightarrow> Inl e
           | Inr network_address \<Rightarrow>
               (case make_netmask max_str_digits netmask_arg of
                  Inl e \<Rightarrow> Inl e
                | Inr (netmask, prefixlen) \<Rightarrow>
                    if and network_address netmask \<noteq> network_address then Inl ValueError
                    else Inr (network_address, netmask, prefixlen))))"

text \<open>
  \<open>validate_cidr\<close>: the three errors above are all subclasses of \<open>ValueError\<close>, so each
  is caught; on success the argument itself is returned.
\<close>

definition validate_cidr :: "nat \<Rightarrow> string \<Rightarrow> arg_error + string" where
  "validate_cidr max_str_digits cidr =
     (case IPv4Network max_str_digits cidr of
        Inl e \<Rightarrow> Inl (ArgumentTypeError (''Invalid CIDR: '' @ cidr))
      | Inr net \<Rightarrow> Inr cidr)"

section \<open>Command line\<close>

text \<open>
  \<open>main\<close> declares five required options and parses the command line with
  \<open>argparse\<close>; the three CIDR options have \<open>type=validate_cidr\<close>. The command line
  is modelled after tokenisation, as the sequence of (option, value) occurrences in
  the order given. \<open>argparse\<close> converts each value as it meets it, keeps the last value
  of a repeated option, and on the first \<open>ArgumentTypeError\<close>, or when a required
  option was never given, calls \<open>parser.error\<close>: a usage message on stderr and
  \<open>SystemExit(2)\<close>.

  One behaviour of \<open>argparse\<close> depends on the interpreter. Before a correction of
  the library (it is in 3.11.10 and 3.12.3, not in 3.11.2), \<open>_get_values\<close>
  removes the first \<open>--\<close> from the values of every action, also of an option: the
  value of \<open>--vpc-cidr=--\<close> is then dropped before any conversion, and the option is
  stored as the empty list. Here \<open>strips_dashes\<close> says that the library does so. The
  value of an option is therefore a string or the empty list.
\<close>

datatype arg_value = Str string | EmptyList

datatype opt =
    Opt_vpc_cidr | Opt_vpc_name | Opt_public_subnet_cidr | Opt_private_subnet_cidr
  | Opt_availability_zone

record args =
  vpc_cidr :: arg_value
  vpc_name :: arg_value
  public_subnet_cidr :: arg_value
  private_subnet_cidr :: arg_value
  availability_zone :: arg_value

datatype parse_error = InvalidArgument opt arg_error | MissingRequired "opt list"

definition all_opts :: "opt list" where
  "all_opts = [Opt_vpc_cidr, Opt_vpc_name, Opt_public_subnet_cidr,
               Opt_private_subnet_cidr, Opt_availability_zone]"

definition has_cidr_type :: "opt \<Rightarrow> bool" where
  "has_cidr_type opt =
     (opt = Opt_vpc_cidr \<or> opt = Opt_public_subnet_cidr \<or> opt = Opt_private_subnet_cidr)"

text \<open>
  \<open>_get_values\<close> for one value of an option: where the library strips it, the value
  \<open>--\<close> gives the empty list and nothing is converted; any other value is converted
  by \<open>type_func(arg_string)\<close>, the identity for an option without a type.
\<close>

definition get_value :: "nat \<Rightarrow> bool \<Rightarrow> opt \<Rightarrow> string \<Rightarrow> arg_error + arg_value" where
  "get_value max_str_digits strips_dashes opt arg_string =
     (if strips_dashes \<and> arg_string = ''--'' then Inr EmptyList
      else if has_cidr_type opt
      then (case validate_cidr max_str_digits arg_string of
              Inl e \<Rightarrow> Inl e
            | Inr v \<Rightarrow> Inr (Str v))
      else Inr (Str arg_string))"

fun consume_optionals ::
  "nat \<Rightarrow> bool \<Rightarrow> (opt \<times> string) list \<Rightarrow> (opt \<rightharpoonup> arg_value) \<Rightarrow>
     parse_error + (opt \<rightharpoonup> arg_value)" where
  "consume_optionals max_str_digits strips_dashes [] namespace = Inr namespace"
| "consume_optionals max_str_digits strips_dashes ((opt, arg_string) # rest) namespace =
     (case get_value max_str_digits strips_dashes opt arg_string of
        Inl e \<Rightarrow> Inl (InvalidArgument opt e)
      | Inr v \<Rightarrow>
          consume_optionals max_str_digits strips_dashes rest (namespace(opt \<mapsto> v)))"

definition parse_args :: "nat \<Rightarrow> bool \<Rightarrow> (opt \<times> string) list \<Rightarrow> parse_error + args" where
  "parse_args max_str_digits strips_dashes argv =
     (case consume_optionals max_str_digits strips_dashes argv Map.empty of
        Inl e \<Rightarrow> Inl e
      | Inr ns \<Rightarrow>
          (case (ns Opt_vpc_cidr, ns Opt_vpc_name, ns Opt_public_subnet_cidr,
                 ns Opt_private_subnet_cidr, ns Opt_availability_zone) of
             (Some c, Some n, Some pub, Some priv, Some az) \<Rightarrow>
               Inr \<lparr>vpc_cidr = c, vpc_name = n, public_subnet_cidr = pub,
                    private_subnet_cidr = priv, availability_zone = az\<rparr>
           | _ \<Rightarrow> Inl (MissingRequired (filter (\<lambda>opt. ns opt = None) all_opts))))"

section \<open>The provisioning run\<close>

text \<open>
  The EC2 resource client is outside the program. Every request \<open>main\<close> can send it is
  a constructor of \<open>request\<close>, named after the boto3 method; a resource object is
  identified by its \<open>id\<close>. The last three constructors are teardown operations the same
  resources offer.
\<close>

type_synonym handle = string

datatype request =
    CreateVpc arg_value
  | WaitUntilAvailable handle
  | CreateTags handle string arg_value
  | CreateInternetGateway
  | AttachToVpc handle handle
  | CreateSubnet handle arg_value arg_value
  | CreateRouteTable handle
  | AssociateWithSubnet handle handle
  | CreateRoute handle string handle
  | Delete handle
  | DetachFromVpc handle handle
  | DeleteRoute handle string

text \<open>
  A raised exception with its \<open>str()\<close>: an instance of \<open>Exception\<close>, which the handler
  of \<open>main\<close> catches, or of another \<open>BaseException\<close> (an interrupt), which it does not.
\<close>

datatype exc = Exception string | BaseException string

text \<open>
  A client answers a request, given the requests it has received before, with the
  \<open>id\<close> of the resource it returns or with an exception. The answer to a request
  whose result the program ignores is any \<open>Inr\<close>.
\<close>

type_synonym client = "request list \<Rightarrow> request \<Rightarrow> exc + handle"

text \<open>The calls of the six step functions, with their arguments.\<close>

datatype step_call =
    Call_create_vpc arg_value arg_value
  | Call_create_internet_gateway handle
  | Call_create_subnet handle arg_value string arg_value
  | Call_create_route_table handle handle "handle option" string

text \<open>What a run does, in order.\<close>

datatype event =
    ParserError parse_error
  | Boto3Resource string
  | Enter step_call
  | Remote request "exc + handle"
  | Print string

fun requests_of :: "event list \<Rightarrow> request list" where
  "requests_of [] = []"
| "requests_of (Remote rq r # evs) = rq # requests_of evs"
| "requests_of (ev # evs) = requests_of evs"

fun steps_of :: "event list \<Rightarrow> step_call list" where
  "steps_of [] = []"
| "steps_of (Enter c # evs) = c # steps_of evs"
| "steps_of (ev # evs) = steps_of evs"

fun stdout_of :: "event list \<Rightarrow> string list" where
  "stdout_of [] = []"
| "stdout_of (Print s # evs) = s # stdout_of evs"
| "stdout_of (ev # evs) = stdout_of evs"

text \<open>
  A piece of program runs on the events so far and gives a value or the exception it
  raised, with the events extended.
\<close>

type_synonym 'a prog = "event list \<Rightarrow> (exc + 'a) \<times> event list"

definition returns :: "'a \<Rightarrow> 'a prog" where
  "returns v evs = (Inr v, evs)"

definition bind :: "'a prog \<Rightarrow> ('a \<Rightarrow> 'b prog) \<Rightarrow> 'b prog" where
  "bind m f evs = (case m evs of (Inl e, evs') \<Rightarrow> (Inl e, evs') | (Inr v, evs') \<Rightarrow> f v evs')"

definition enter :: "step_call \<Rightarrow> unit prog" where
  "enter c evs = (Inr (), evs @ [Enter c])"

definition remote :: "client \<Rightarrow> request \<Rightarrow> handle prog" where
  "remote ec2 rq evs = (ec2 (requests_of evs) rq, evs @ [Remote rq (ec2 (requests_of evs) rq)])"

definition print :: "string \<Rightarrow> unit prog" where
  "print s evs = (Inr (), evs @ [Print s])"

text \<open>The UTF-8 bytes of U+2705, U+1F389 and U+274C, which start the printed lines.\<close>

definition check_mark :: string where
  "check_mark = [CHR 0xE2, CHR 0x9C, CHR 0x85]"

definition party_popper :: string where
  "party_popper = [CHR 0xF0, CHR 0x9F, CHR 0x8E, CHR 0x89]"

definition cross_mark :: string where
  "cross_mark = [CHR 0xE2, CHR 0x9D, CHR 0x8C]"

definition create_vpc :: "client \<Rightarrow> arg_value \<Rightarrow> arg_value \<Rightarrow> handle prog" where
  "create_vpc ec2 cidr_block name =
     bind (enter (Call_create_vpc cidr_block name)) (\<lambda>_.
     bind (remote ec2 (CreateVpc cidr_block)) (\<lambda>vpc.
     bind (remote ec2 (WaitUntilAvailable vpc)) (\<lambda>_.
     bind (remote ec2 (CreateTags vpc ''Name'' name)) (\<lambda>_.
     bind (print (check_mark @ '' Created VPC: '' @ vpc)) (\<lambda>_.
     returns vpc)))))"

definition create_internet_gateway :: "client \<Rightarrow> handle \<Rightarrow> handle prog" where
  "create_internet_gateway ec2 vpc_id =
     bind (enter (Call_create_internet_gateway vpc_id)) (\<lambda>_.
     bind (remote ec2 CreateInternetGateway) (\<lambda>igw.
     bind (remote ec2 (AttachToVpc igw vpc_id)) (\<lambda>_.
     bind (print (check_mark @ '' Created and attached Internet Gateway: '' @ igw)) (\<lambda>_.
     returns igw))))"

definition create_subnet ::
  "client \<Rightarrow> handle \<Rightarrow> arg_value \<Rightarrow> string \<Rightarrow> arg_value \<Rightarrow> handle prog" where
  "create_subnet ec2 vpc_id cidr_block name az =
     bind (enter (Call_create_subnet vpc_id cidr_block name az)) (\<lambda>_.
     bind (remote ec2 (CreateSubnet vpc_id cidr_block az)) (\<lambda>subnet.
     bind (remote ec2 (CreateTags subnet ''Name'' (Str name))) (\<lambda>_.
     bind (print (check_mark @ '' Created Subnet: '' @ subnet @ '' ('' @ name @ '')'')) (\<lambda>_.
     returns subnet))))"

text \<open>
  \<open>if igw_id:\<close> tests the truth value of the argument: \<open>None\<close> and the empty string
  both take the \<open>else\<close> branch.
\<close>

definition truthy :: "handle option \<Rightarrow> bool" where
  "truthy igw_id = (case igw_id of None \<Rightarrow> False | Some s \<Rightarrow> s \<noteq> [])"

definition create_route_table ::
  "client \<Rightarrow> handle \<Rightarrow> handle \<Rightarrow> handle option \<Rightarrow> string \<Rightarrow> handle prog" where
  "create_route_table ec2 vpc_id subnet_id igw_id name =
     bind (enter (Call_create_route_table vpc_id subnet_id igw_id name)) (\<lambda>_.
     bind (remote ec2 (CreateRouteTable vpc_id)) (\<lambda>table.
     bind (remote ec2 (CreateTags table ''Name'' (Str name))) (\<lambda>_.
     bind (remote ec2 (AssociateWithSubnet table subnet_id)) (\<lambda>_.
     bind (if truthy igw_id
           then bind (remote ec2 (CreateRoute table ''0.0.0.0/0'' (the igw_id))) (\<lambda>_.
                print (check_mark @ '' Public Route added to IGW in '' @ name))
           else print (check_mark @ '' Created private Route Table: '' @ table)) (\<lambda>_.
     returns table)))))"

text \<open>The body of the \<open>try\<close> statement of \<open>main\<close>.\<close>

definition provision :: "client \<Rightarrow> args \<Rightarrow> unit prog" where
  "provision ec2 a =
     bind (create_vpc ec2 (vpc_cidr a) (vpc_name a)) (\<lambda>vpc_id.
     bind (create_internet_gateway ec2 vpc_id) (\<lambda>igw_id.
     bind (create_subnet ec2 vpc_id (public_subnet_cidr a) ''PublicSubnet''
             (availability_zone a)) (\<lambda>public_subnet_id.
     bind (create_subnet ec2 vpc_id (private_subnet_cidr a) ''PrivateSubnet''
             (availability_zone a)) (\<lambda>private_subnet_id.
     bind (create_route_table ec2 vpc_id public_subnet_id (Some igw_id)
             ''PublicRouteTable'') (\<lambda>_.
     bind (create_route_table ec2 vpc_id private_subnet_id None
             ''PrivateRouteTable'') (\<lambda>_.
     print (party_popper @ '' All resources created successfully!'')))))))"

text \<open>
  How the process ends: \<open>main\<close> returns, \<open>sys.exit\<close> is called with a status, or an
  exception leaves \<open>main\<close> uncaught.
\<close>

datatype outcome = Returned | SystemExit int | Uncaught exc

text \<open>
  \<open>main\<close>. \<open>boto3.resource("ec2")\<close> stands before the \<open>try\<close> statement: it gives the
  client or raises, and what it raises is not caught. In the \<open>try\<close> statement the
  handler catches \<open>Exception\<close>, prints its text and exits with status 1.
\<close>

definition main ::
  "nat \<Rightarrow> bool \<Rightarrow> (exc + client) \<Rightarrow> (opt \<times> string) list \<Rightarrow> outcome \<times> event list" where
  "main max_str_digits strips_dashes boto3_resource argv =
     (case parse_args max_str_digits strips_dashes argv of
        Inl err \<Rightarrow> (SystemExit 2, [ParserError err])
      | Inr a \<Rightarrow>
          (case boto3_resource of
             Inl e \<Rightarrow> (Uncaught e, [Boto3Resource ''ec2''])
           | Inr ec2 \<Rightarrow>
               (case provision ec2 a [Boto3Resource ''ec2''] of
                  (Inr u, evs) \<Rightarrow> (Returned, evs)
                | (Inl (Exception msg), evs) \<Rightarrow>
                    (SystemExit 1, evs @ [Print (cross_mark @ '' Error: '' @ msg)])
                | (Inl (BaseException msg), evs) \<Rightarrow> (Uncaught (BaseException msg), evs))))"

section \<open>Notions used in the statements\<close>

text \<open>A request that raised; a run of events without one.\<close>

fun failed :: "event \<Rightarrow> bool" where
  "failed (Remote rq (Inl e)) = True"
| "failed ev = False"

definition healthy :: "event list \<Rightarrow> bool" where
  "healthy evs = (\<forall>ev \<in> set evs. \<not> failed ev)"

text \<open>The requests that remove or detach a resource.\<close>

fun teardown :: "request \<Rightarrow> bool" where
  "teardown (Delete h) = True"
| "teardown (DetachFromVpc g v) = True"
| "teardown (DeleteRoute t d) = True"
| "teardown rq = False"

text \<open>
  \<open>hoare P p Q\<close>: run from events that satisfy \<open>P\<close>, the program \<open>p\<close> ends with a result
  and events that satisfy \<open>Q\<close>.
\<close>

definition hoare ::
  "(event list \<Rightarrow> bool) \<Rightarrow> 'a prog \<Rightarrow> (exc + 'a \<Rightarrow> event list \<Rightarrow> bool) \<Rightarrow> bool" where
  "hoare P p Q = (\<forall>evs. P evs \<longrightarrow> Q (fst (p evs)) (snd (p evs)))"

text \<open>
  The program either went on without a failed request, or raised what its last
  request raised, which is then the only failed request.
\<close>

definition stopped :: "exc + 'a \<Rightarrow> event list \<Rightarrow> bool" where
  "stopped r evs =
     (case r of
        Inr v \<Rightarrow> healthy evs
      | Inl e \<Rightarrow> (\<exists>pre rq. evs = pre @ [Remote rq (Inl e)] \<and> healthy pre))"

definition constructive :: "event list \<Rightarrow> bool" where
  "constructive evs = (\<forall>rq \<in> set (requests_of evs). \<not> teardown rq)"

text \<open>
  The handles the client returned for the requests that create a resource, in order.
\<close>

fun created :: "event list \<Rightarrow> handle list" where
  "created [] = []"
| "created (Remote (CreateVpc c) (Inr h) # evs) = h # created evs"
| "created (Remote CreateInternetGateway (Inr h) # evs) = h # created evs"
| "created (Remote (CreateSubnet v c z) (Inr h) # evs) = h # created evs"
| "created (Remote (CreateRouteTable v) (Inr h) # evs) = h # created evs"
| "created (ev # evs) = created evs"

text \<open>
  The confirmation lines of the first five steps, for the handles created so far: VPC,
  gateway, public subnet, private subnet, public route table. The line of the public
  route table shows no handle when the gateway handle is not empty.
\<close>

definition vpc_line :: "handle \<Rightarrow> string" where
  "vpc_line vpc = check_mark @ '' Created VPC: '' @ vpc"

definition igw_line :: "handle \<Rightarrow> string" where
  "igw_line igw = check_mark @ '' Created and attached Internet Gateway: '' @ igw"

definition subnet_line :: "handle \<Rightarrow> string \<Rightarrow> string" where
  "subnet_line subnet name = check_mark @ '' Created Subnet: '' @ subnet @ '' ('' @ name @ '')''"

definition public_table_line :: "handle \<Rightarrow> handle \<Rightarrow> string" where
  "public_table_line igw table =
     (if igw \<noteq> [] then check_mark @ '' Public Route added to IGW in PublicRouteTable''
      else check_mark @ '' Created private Route Table: '' @ table)"

fun confirmation_lines :: "handle list \<Rightarrow> string list" where
  "confirmation_lines (vpc # igw # pub # priv # table # hs) =
     [vpc_line vpc, igw_line igw, subnet_line pub ''PublicSubnet'',
      subnet_line priv ''PrivateSubnet'', public_table_line igw table]"
| "confirmation_lines [vpc, igw, pub, priv] =
     [vpc_line vpc, igw_line igw, subnet_line pub ''PublicSubnet'',
      subnet_line priv ''PrivateSubnet'']"
| "confirmation_lines [vpc, igw, pub] =
     [vpc_line vpc, igw_line igw, subnet_line pub ''PublicSubnet'']"
| "confirmation_lines [vpc, igw] = [vpc_line vpc, igw_line igw]"
| "confirmation_lines [vpc] = [vpc_line vpc]"
| "confirmation_lines [] = []"

text \<open>\<open>mentions s line\<close>: the text \<open>s\<close> occurs in the line.\<close>

fun mentions :: "string \<Rightarrow> string \<Rightarrow> bool" where
  "mentions s [] = (s = [])"
| "mentions s (c # cs) = (take (length s) (c # cs) = s \<or> mentions s cs)"

text \<open>
  The decimal numeral of a natural number, as Python's \<open>str\<close> writes it, and the texts
  \<open>a.b.c.d\<close> and \<open>a.b.c.d/n\<close> built from it.
\<close>

definition digit_char :: "nat \<Rightarrow> char" where
  "digit_char k = ''0123456789'' ! k"

fun str_nat :: "nat \<Rightarrow> string" where
  "str_nat n = (if n < 10 then [digit_char n] else str_nat (n div 10) @ [digit_char (n mod 10)])"

definition dotted_quad :: "nat \<Rightarrow> nat \<Rightarrow> nat \<Rightarrow> nat \<Rightarrow> string" where
  "dotted_quad a b c d = str_nat a @ ''.'' @ str_nat b @ ''.'' @ str_nat c @ ''.'' @ str_nat d"

definition cidr_text :: "nat \<Rightarrow> nat \<Rightarrow> nat \<Rightarrow> nat \<Rightarrow> nat \<Rightarrow> string" where
  "cidr_text a b c d n = dotted_quad a b c d @ ''/'' @ str_nat n"

text \<open>The 32-bit address \<open>a.b.c.d\<close>; its host bits under prefix length \<open>n\<close>.\<close>

definition address_int :: "nat \<Rightarrow> nat \<Rightarrow> nat \<Rightarrow> nat \<Rightarrow> nat" where
  "address_int a b c d = ((a * 256 + b) * 256 + c) * 256 + d"

definition host_bits :: "nat \<Rightarrow> nat \<Rightarrow> nat" where
  "host_bits addr n = addr mod 2 ^ (32 - n)"

text \<open>A mask text that is a prefix length: decimal digits with a value of at most 32.\<close>

definition prefix_length_text :: "string \<Rightarrow> bool" where
  "prefix_length_text m = (m \<noteq> [] \<and> list_all is_ascii_digit m \<and> decimal m \<le> 32)"

text \<open>
  A 32-bit mask whose one bits are contiguous: a netmask \<open>2^32 - 2^k\<close>, ones at the
  top, or a hostmask \<open>2^k - 1\<close>, ones at the bottom.
\<close>

definition contiguous_mask :: "nat \<Rightarrow> bool" where
  "contiguous_mask x = (\<exists>k\<le>32. x = 2 ^ 32 - 2 ^ k \<or> x = 2 ^ k - 1)"

text \<open>
  The texts that denote a block: an address \<open>a.b.c.d\<close> with octets in [0,255], alone or
  followed by a slash and a mask, which is a prefix length or a dotted quad that is a
  netmask or a hostmask.
\<close>

definition cidr_shape :: "string \<Rightarrow> bool" where
  "cidr_shape s =
     (\<exists>a b c d. a < 256 \<and> b < 256 \<and> c < 256 \<and> d < 256 \<and>
        (s = dotted_quad a b c d \<or>
         (\<exists>m. s = dotted_quad a b c d @ ''/'' @ m \<and>
            (prefix_length_text m \<or>
             (\<exists>e f g h. e < 256 \<and> f < 256 \<and> g < 256 \<and> h < 256 \<and> m = dotted_quad e f g h \<and>
                contiguous_mask (address_int e f g h))))))"

section \<open>Clients and command lines used as examples\<close>

text \<open>A client on which every call succeeds, and one that raises on its \<open>n\<close>-th request.\<close>

fun stub_id :: "request list \<Rightarrow> request \<Rightarrow> handle" where
  "stub_id hist (CreateVpc c) = ''vpc-1''"
| "stub_id hist CreateInternetGateway = ''igw-1''"
| "stub_id hist (CreateSubnet v (Str c) z) = ''subnet-'' @ c"
| "stub_id hist (CreateSubnet v EmptyList z) = ''subnet-''"
| "stub_id hist (CreateRouteTable v) =
     (if CreateRouteTable v \<in> set hist then ''rtb-2'' else ''rtb-1'')"
| "stub_id hist rq = ''ok''"

definition stub_ok :: client where
  "stub_ok hist rq = Inr (stub_id hist rq)"

definition stub_failing_at :: "nat \<Rightarrow> exc \<Rightarrow> client" where
  "stub_failing_at n e hist rq = (if length hist = n then Inl e else Inr (stub_id hist rq))"

definition demo_argv :: "(opt \<times> string) list" where
  "demo_argv =
     [(Opt_vpc_cidr, ''10.0.0.0/16''), (Opt_vpc_name, ''demo''),
      (Opt_public_subnet_cidr, ''10.0.1.0/24''), (Opt_private_subnet_cidr, ''10.0.2.0/24''),
      (Opt_availability_zone, ''us-east-1a'')]"

text \<open>The events of the six steps on \<open>demo_argv\<close> when every call succeeds.\<close>

definition demo_step1 :: "event list" where
  "demo_step1 =
     [Enter (Call_create_vpc (Str ''10.0.0.0/16'') (Str ''demo'')),
      Remote (CreateVpc (Str ''10.0.0.0/16'')) (Inr ''vpc-1''),
      Remote (WaitUntilAvailable ''vpc-1'') (Inr ''ok''),
      Remote (CreateTags ''vpc-1'' ''Name'' (Str ''demo'')) (Inr ''ok''),
      Print (check_mark @ '' Created VPC: vpc-1'')]"

definition demo_step2 :: "event list" where
  "demo_step2 =
     [Enter (Call_create_internet_gateway ''vpc-1''),
      Remote CreateInternetGateway (Inr ''igw-1''),
      Remote (AttachToVpc ''igw-1'' ''vpc-1'') (Inr ''ok''),
      Print (check_mark @ '' Created and attached Internet Gateway: igw-1'')]"

definition demo_step3 :: "event list" where
  "demo_step3 =
     [Enter (Call_create_subnet ''vpc-1'' (Str ''10.0.1.0/24'') ''PublicSubnet'' (Str ''us-east-1a'')),
      Remote (CreateSubnet ''vpc-1'' (Str ''10.0.1.0/24'') (Str ''us-east-1a'')) (Inr ''subnet-10.0.1.0/24''),
      Remote (CreateTags ''subnet-10.0.1.0/24'' ''Name'' (Str ''PublicSubnet'')) (Inr ''ok''),
      Print (check_mark @ '' Created Subnet: subnet-10.0.1.0/24 (PublicSubnet)'')]"

definition demo_step4 :: "event list" where
  "demo_step4 =
     [Enter (Call_create_subnet ''vpc-1'' (Str ''10.0.2.0/24'') ''PrivateSubnet'' (Str ''us-east-1a'')),
      Remote (CreateSubnet ''vpc-1'' (Str ''10.0.2.0/24'') (Str ''us-east-1a'')) (Inr ''subnet-10.0.2.0/24''),
      Remote (CreateTags ''subnet-10.0.2.0/24'' ''Name'' (Str ''PrivateSubnet'')) (Inr ''ok''),
      Print (check_mark @ '' Created Subnet: subnet-10.0.2.0/24 (PrivateSubnet)'')]"

definition demo_step5 :: "event list" where
  "demo_step5 =
     [Enter (Call_create_route_table ''vpc-1'' ''subnet-10.0.1.0/24'' (Some ''igw-1'')
        ''PublicRouteTable''),
      Remote (CreateRouteTable ''vpc-1'') (Inr ''rtb-1''),
      Remote (CreateTags ''rtb-1'' ''Name'' (Str ''PublicRouteTable'')) (Inr ''ok''),
      Remote (AssociateWithSubnet ''rtb-1'' ''subnet-10.0.1.0/24'') (Inr ''ok''),
      Remote (CreateRoute ''rtb-1'' ''0.0.0.0/0'' ''igw-1'') (Inr ''ok''),
      Print (check_mark @ '' Public Route added to IGW in PublicRouteTable'')]"

definition demo_step6 :: "event list" where
  "demo_step6 =
     [Enter (Call_create_route_table ''vpc-1'' ''subnet-10.0.2.0/24'' None
        ''PrivateRouteTable''),
      Remote (CreateRouteTable ''vpc-1'') (Inr ''rtb-2''),
      Remote (CreateTags ''rtb-2'' ''Name'' (Str ''PrivateRouteTable'')) (Inr ''ok''),
      Remote (AssociateWithSubnet ''rtb-2'' ''subnet-10.0.2.0/24'') (Inr ''ok''),
      Print (check_mark @ '' Created private Route Table: rtb-2'')]"



text \<open>A client on which every call succeeds and whose gateway has the empty \<open>id\<close>.\<close>

definition stub_empty_gateway :: client where
  "stub_empty_gateway hist rq =
     (if rq = CreateInternetGateway then Inr [] else Inr (stub_id hist rq))"

section \<open>Properties of the validation\<close>

lemma validate_cidr_returns_argument:
  "validate_cidr max_str_digits cidr = Inr block \<Longrightarrow> block = cidr"
  by (simp add: validate_cidr_def split: sum.splits)

text \<open>
  C9. For every valid CIDR string, validation is idempotent: validating the block that
  \<open>validate_cidr\<close> returned succeeds and yields an equal block.
\<close>

theorem validate_cidr_idempotent:
  assumes "validate_cidr max_str_digits cidr = Inr block"
  shows "validate_cidr max_str_digits block = Inr block"
proof -
  from assms have "block = cidr"
    by (rule validate_cidr_returns_argument)
  with assms show ?thesis
    by simp
qed

lemma validate_cidr_10_0_0_0_16:
  "validate_cidr 4300 ''10.0.0.0/16'' = Inr ''10.0.0.0/16''"
  by code_simp

theorem validate_cidr_idempotent_witness:
  "validate_cidr 4300 ''10.0.0.0/16'' = Inr ''10.0.0.0/16''
   \<and> validate_cidr 4300 (projr (validate_cidr 4300 ''10.0.0.0/16'')) = Inr ''10.0.0.0/16''"
  using validate_cidr_idempotent [OF validate_cidr_10_0_0_0_16] validate_cidr_10_0_0_0_16
  by simp

subsection \<open>Netmasks and host bits\<close>

lemma ALL_ONES_mask: "ALL_ONES = mask 32"
  by (simp add: ALL_ONES_def mask_eq_exp_minus_1)

lemma netmask_bits: "bit (ip_int_from_prefix (int n)) i \<longleftrightarrow> i < 32 \<and> 32 \<le> n + i"
  by (auto simp add: ip_int_from_prefix_def ALL_ONES_mask bit_simps)

lemma bit_below_32:
  fixes x :: int
  assumes "0 \<le> x" "x < 2 ^ 32" "bit x i"
  shows "i < 32"
proof -
  from assms have "take_bit 32 x = x"
    by (simp add: take_bit_int_eq_self)
  with assms(3) have "bit (take_bit 32 x) i"
    by simp
  then show ?thesis
    by (simp add: bit_take_bit_iff)
qed

lemma network_address_iff:
  fixes x :: int
  assumes "0 \<le> x" "x < 2 ^ 32"
  shows "and x (ip_int_from_prefix (int n)) = x \<longleftrightarrow> x mod 2 ^ (32 - n) = 0"
proof
  assume eq: "and x (ip_int_from_prefix (int n)) = x"
  have "take_bit (32 - n) x = 0"
  proof (rule bit_eqI)
    fix i
    have "bit x i \<longrightarrow> 32 \<le> n + i"
      using eq netmask_bits [of n i] by (metis bit_and_iff)
    then show "bit (take_bit (32 - n) x) i \<longleftrightarrow> bit (0::int) i"
      by (auto simp: bit_take_bit_iff)
  qed
  then show "x mod 2 ^ (32 - n) = 0"
    by (simp add: take_bit_eq_mod)
next
  assume "x mod 2 ^ (32 - n) = 0"
  then have tb: "take_bit (32 - n) x = 0"
    by (simp add: take_bit_eq_mod)
  show "and x (ip_int_from_prefix (int n)) = x"
  proof (rule bit_eqI)
    fix i
    have "bit x i \<Longrightarrow> i < 32"
      using assms by (rule bit_below_32)
    moreover have "bit x i \<Longrightarrow> \<not> i < 32 - n"
      using tb by (metis bit_take_bit_iff bit_0_eq bot_apply bot_bool_def)
    ultimately show "bit (and x (ip_int_from_prefix (int n))) i \<longleftrightarrow> bit x i"
      by (auto simp: bit_and_iff netmask_bits)
  qed
qed

lemma bits_of_nat_double: "0 < m \<Longrightarrow> bits_of_nat (2 * m + 1) = Suc (bits_of_nat m)"
  by (subst bits_of_nat.simps) simp











subsection \<open>Decimal numerals\<close>

declare str_nat.simps [simp del]

lemma digit_char_digit: "k < 10 \<Longrightarrow> is_ascii_digit (digit_char k)"
proof -
  assume "k < 10"
  then have "k \<in> {0, 1, 2, 3, 4, 5, 6, 7, 8, 9}"
    by auto
  then show ?thesis
    by (auto simp: is_ascii_digit_def digit_char_def)
qed

lemma digit_val_digit_char: "k < 10 \<Longrightarrow> digit_val (digit_char k) = int k"
proof -
  assume "k < 10"
  then have "k \<in> {0, 1, 2, 3, 4, 5, 6, 7, 8, 9}"
    by auto
  then show ?thesis
    by (auto simp: digit_val_def digit_char_def)
qed

lemma digit_char_zero: "k < 10 \<Longrightarrow> digit_char k = CHR ''0'' \<longleftrightarrow> k = 0"
proof -
  assume "k < 10"
  then have "k \<in> {0, 1, 2, 3, 4, 5, 6, 7, 8, 9}"
    by auto
  then show ?thesis
    by (auto simp: digit_char_def)
qed

lemma str_nat_digits: "list_all is_ascii_digit (str_nat n)"
proof (induction n rule: str_nat.induct)
  case (1 n)
  show ?case
  proof (cases "n < 10")
    case True
    then show ?thesis
      by (subst str_nat.simps) (simp add: digit_char_digit)
  next
    case False
    with 1 show ?thesis
      by (subst str_nat.simps) (simp add: digit_char_digit)
  qed
qed

lemma str_nat_nonempty: "str_nat n \<noteq> []"
  by (subst str_nat.simps) simp

lemma int_div_mod_10: "10 * int (n div 10) + int (n mod 10) = int n"
  by presburger

lemma decimal_snoc: "decimal (xs @ [c]) = 10 * decimal xs + digit_val c"
  by (simp add: decimal_def)

lemma decimal_str_nat: "decimal (str_nat n) = int n"
proof (induction n rule: str_nat.induct)
  case (1 n)
  show ?case
  proof (cases "n < 10")
    case True
    then show ?thesis
      by (subst str_nat.simps) (simp add: decimal_def digit_val_digit_char)
  next
    case False
    with 1 have "decimal (str_nat (n div 10)) = int (n div 10)"
      by simp
    with False show ?thesis
      by (subst str_nat.simps) (simp add: decimal_snoc digit_val_digit_char int_div_mod_10)
  qed
qed

lemma length_str_nat: "n < 1000 \<Longrightarrow> length (str_nat n) \<le> 3"
  by (subst str_nat.simps, subst str_nat.simps, subst str_nat.simps) auto

lemma hd_str_nat: "n \<noteq> 0 \<Longrightarrow> hd (str_nat n) \<noteq> CHR ''0''"
proof (induction n rule: str_nat.induct)
  case (1 n)
  show ?case
  proof (cases "n < 10")
    case True
    with 1 show ?thesis
      by (subst str_nat.simps) (simp add: digit_char_zero)
  next
    case False
    with 1 have "hd (str_nat (n div 10)) \<noteq> CHR ''0''"
      by simp
    with False show ?thesis
      by (subst str_nat.simps) (simp add: str_nat_nonempty)
  qed
qed

lemma str_nat_0: "str_nat 0 = ''0''"
  by (subst str_nat.simps) (simp add: digit_char_def)

lemma parse_octet_str_nat:
  assumes "n < 256"
  shows "parse_octet (str_nat n) = Inr (int n)"
proof (cases "n = 0")
  case True
  then show ?thesis
    by (simp add: str_nat_0 parse_octet_def isascii_isdigit_def is_ascii_digit_def decimal_def
          digit_val_def)
next
  case False
  then have "hd (str_nat n) \<noteq> CHR ''0''"
    by (rule hd_str_nat)
  moreover from assms have "length (str_nat n) \<le> 3"
    by (simp add: length_str_nat)
  ultimately show ?thesis
    using assms
    by (simp add: parse_octet_def isascii_isdigit_def str_nat_nonempty str_nat_digits
          decimal_str_nat)
qed

subsection \<open>Parsing the text of a block\<close>

lemma py_split_no_sep: "sep \<notin> set xs \<Longrightarrow> py_split sep xs = [xs]"
  by (induction xs) auto

lemma py_split_at_sep:
  "sep \<notin> set xs \<Longrightarrow> py_split sep (xs @ sep # ys) = xs # py_split sep ys"
  by (induction xs) auto

lemma digit_not_dot: "is_ascii_digit c \<Longrightarrow> c \<noteq> CHR ''.'' \<and> c \<noteq> CHR ''/''"
  by (auto simp: is_ascii_digit_def)

lemma str_nat_no_sep: "CHR ''.'' \<notin> set (str_nat n)" "CHR ''/'' \<notin> set (str_nat n)"
  using str_nat_digits [of n] digit_not_dot by (auto simp: list_all_iff)

lemma py_split_dotted_quad:
  "py_split CHR ''.'' (dotted_quad a b c d) = [str_nat a, str_nat b, str_nat c, str_nat d]"
  by (simp add: dotted_quad_def py_split_at_sep py_split_no_sep str_nat_no_sep)

lemma dotted_quad_nonempty: "dotted_quad a b c d \<noteq> []"
  by (simp add: dotted_quad_def)

lemma dotted_quad_no_slash: "CHR ''/'' \<notin> set (dotted_quad a b c d)"
  by (simp add: dotted_quad_def str_nat_no_sep)

lemma ip_int_from_string_dotted_quad:
  assumes "a < 256" "b < 256" "c < 256" "d < 256"
  shows "ip_int_from_string (dotted_quad a b c d) = Inr (int (address_int a b c d))"
  using assms
  by (simp add: ip_int_from_string_def dotted_quad_nonempty py_split_dotted_quad
        parse_octet_str_nat from_bytes_big_def address_int_def)

lemma split_addr_prefix_cidr_text:
  "split_addr_prefix (cidr_text a b c d n) = Inr (dotted_quad a b c d, MaskStr (str_nat n))"
  by (simp add: split_addr_prefix_def split_optional_netmask_def cidr_text_def
        py_split_at_sep py_split_no_sep dotted_quad_no_slash str_nat_no_sep)

lemma length_str_nat_le: "n \<le> 32 \<Longrightarrow> length (str_nat n) \<le> 3"
  by (simp add: length_str_nat)

lemma make_netmask_str_nat:
  assumes "n \<le> 32"
  shows "make_netmask lim (MaskStr (str_nat n)) = Inr (ip_int_from_prefix (int n), int n)"
proof -
  from assms have "length (str_nat n) \<le> 3"
    by (simp add: length_str_nat)
  then have "py_int lim (str_nat n) = Inr (int n)"
    by (simp add: py_int_def decimal_str_nat)
  with assms show ?thesis
    by (simp add: make_netmask_def prefix_from_prefix_string_def isascii_isdigit_def
          str_nat_nonempty str_nat_digits max_prefixlen_def)
qed

lemma address_int_range:
  assumes "a < 256" "b < 256" "c < 256" "d < 256"
  shows "address_int a b c d < 2 ^ 32"
  using assms by (simp add: address_int_def)

lemma IPv4Network_cidr_text:
  assumes "a < 256" "b < 256" "c < 256" "d < 256" "n \<le> 32"
  shows "IPv4Network lim (cidr_text a b c d n) =
           (if host_bits (address_int a b c d) n \<noteq> 0 then Inl ValueError
            else Inr (int (address_int a b c d), ip_int_from_prefix (int n), int n))"
proof -
  let ?x = "int (address_int a b c d)"
  from address_int_range [OF assms(1-4)] have "?x < 2 ^ 32"
    by (metis of_nat_less_iff of_nat_numeral of_nat_power)
  with network_address_iff [of ?x n]
  have "and ?x (ip_int_from_prefix (int n)) = ?x \<longleftrightarrow> ?x mod 2 ^ (32 - n) = 0"
    by simp
  also have "?x mod 2 ^ (32 - n) = int (host_bits (address_int a b c d) n)"
    by (simp add: host_bits_def zmod_int)
  finally have "and ?x (ip_int_from_prefix (int n)) = ?x \<longleftrightarrow> host_bits (address_int a b c d) n = 0"
    by simp
  with assms show ?thesis
    by (simp add: IPv4Network_def split_addr_prefix_cidr_text IPv4Address_def
          dotted_quad_no_slash ip_int_from_string_dotted_quad make_netmask_str_nat)
qed

lemma cidr_text_10_0_1_1_24: "cidr_text 10 0 1 1 24 = ''10.0.1.1/24''"
  by code_simp

text \<open>
  C10. A string \<open>a.b.c.d/n\<close> with octets in [0,255] and \<open>n\<close> in [0,32] whose address
  has a host bit set below the prefix is rejected with the invalid-input error: the
  network is parsed in strict mode.
\<close>

theorem host_bits_rejected:
  assumes "a < 256" "b < 256" "c < 256" "d < 256" "n \<le> 32"
    and "host_bits (address_int a b c d) n \<noteq> 0"
  shows "validate_cidr max_str_digits (cidr_text a b c d n) =
           Inl (ArgumentTypeError (''Invalid CIDR: '' @ cidr_text a b c d n))"
  using assms by (simp add: validate_cidr_def IPv4Network_cidr_text)

theorem host_bits_rejected_witness:
  "validate_cidr 4300 ''10.0.1.1/24'' = Inl (ArgumentTypeError ''Invalid CIDR: 10.0.1.1/24'')"
proof -
  have "validate_cidr 4300 (cidr_text 10 0 1 1 24) =
          Inl (ArgumentTypeError (''Invalid CIDR: '' @ cidr_text 10 0 1 1 24))"
    by (rule host_bits_rejected) (simp_all add: host_bits_def address_int_def)
  then show ?thesis
    unfolding cidr_text_10_0_1_1_24 by simp
qed

subsection \<open>What an accepted text looks like\<close>

lemma py_split_nonempty: "py_split sep s \<noteq> []"
  by (induction s) (auto split: list.splits)

lemma py_split_Cons:
  "py_split sep s = p # ps \<Longrightarrow>
     (ps = [] \<longrightarrow> s = p) \<and> (ps \<noteq> [] \<longrightarrow> (\<exists>s'. s = p @ sep # s' \<and> py_split sep s' = ps))"
proof (induction s arbitrary: p ps)
  case Nil
  then show ?case by simp
next
  case (Cons x xs)
  show ?case
  proof (cases "x = sep")
    case True
    with Cons.prems show ?thesis
      by (auto simp: py_split_nonempty)
  next
    case False
    obtain p' ps' where s: "py_split sep xs = p' # ps'"
      using py_split_nonempty [of sep xs] by (cases "py_split sep xs") auto
    with False Cons.prems have "p = x # p'" "ps = ps'"
      by simp_all
    with Cons.IH [OF s] show ?thesis
      by auto
  qed
qed

lemma py_split_one: "py_split sep s = [p] \<Longrightarrow> s = p"
  using py_split_Cons [of sep s p "[]"] by simp



lemma digit_cases: "is_ascii_digit c \<Longrightarrow> \<exists>k<10. c = digit_char k"
proof -
  assume "is_ascii_digit c"
  then have "c = digit_char 0 \<or> c = digit_char 1 \<or> c = digit_char 2 \<or> c = digit_char 3
      \<or> c = digit_char 4 \<or> c = digit_char 5 \<or> c = digit_char 6 \<or> c = digit_char 7
      \<or> c = digit_char 8 \<or> c = digit_char 9"
    by (auto simp: is_ascii_digit_def digit_char_def)
  then have "\<exists>k \<in> {0, 1, 2, 3, 4, 5, 6, 7, 8, 9}. c = digit_char k"
    by blast
  then obtain k where "k \<in> {0, 1, 2, 3, 4, 5, 6, 7, 8, 9::nat}" "c = digit_char k"
    by blast
  moreover from this have "k < 10"
    by auto
  ultimately show ?thesis
    by blast
qed

lemma decimal_nonneg: "list_all is_ascii_digit t \<Longrightarrow> 0 \<le> decimal t"
proof (induction t rule: rev_induct)
  case Nil
  then show ?case by (simp add: decimal_def)
next
  case (snoc c t)
  then obtain k where "k < 10" "c = digit_char k"
    using digit_cases by auto
  with snoc show ?case
    by (simp add: decimal_snoc digit_val_digit_char)
qed













text \<open>
  A text outside the shape: in \<open>10.0.0.0/1.2.3.4\<close> the mask is a dotted quad with octets
  in range, but its one bits are scattered, so it is neither a netmask nor a hostmask.
\<close>

lemma scattered_mask: "\<not> contiguous_mask 16909060"
proof
  assume "contiguous_mask 16909060"
  then obtain k where k: "k \<le> 32"
    and alt: "(16909060::nat) = 2 ^ 32 - 2 ^ k \<or> (16909060::nat) = 2 ^ k - 1"
    unfolding contiguous_mask_def by blast
  from alt show False
  proof
    assume e: "(16909060::nat) = 2 ^ 32 - 2 ^ k"
    show False
    proof (cases "k \<le> 31")
      case True
      then have "(2::nat) ^ k \<le> 2 ^ 31"
        by (intro power_increasing) simp_all
      with e show False
        by simp
    next
      case False
      with k have "k = 32"
        by simp
      with e show False
        by simp
    qed
  next
    assume e: "(16909060::nat) = 2 ^ k - 1"
    show False
    proof (cases "k \<le> 24")
      case True
      then have "(2::nat) ^ k \<le> 2 ^ 24"
        by (intro power_increasing) simp_all
      with e show False
        by simp
    next
      case False
      then have "25 \<le> k"
        by simp
      then have "(2::nat) ^ 25 \<le> 2 ^ k"
        by (intro power_increasing) simp_all
      with e show False
        by simp
    qed
  qed
qed

lemma split_scattered:
  "py_split CHR ''/'' ''10.0.0.0/1.2.3.4'' = [''10.0.0.0'', ''1.2.3.4'']"
  by simp

lemma scattered_value: "ip_int_from_string ''1.2.3.4'' = Inr 16909060"
  by code_simp

lemma scattered_not_prefix: "\<not> prefix_length_text ''1.2.3.4''"
  by (simp add: prefix_length_text_def is_ascii_digit_def)

lemma scattered_mask_not_shape: "\<not> cidr_shape ''10.0.0.0/1.2.3.4''"
proof
  assume "cidr_shape ''10.0.0.0/1.2.3.4''"
  then obtain a b c d where
    alt: "''10.0.0.0/1.2.3.4'' = dotted_quad a b c d \<or>
       (\<exists>m. ''10.0.0.0/1.2.3.4'' = dotted_quad a b c d @ ''/'' @ m \<and>
          (prefix_length_text m \<or>
           (\<exists>e f g h. e < 256 \<and> f < 256 \<and> g < 256 \<and> h < 256 \<and> m = dotted_quad e f g h \<and>
              contiguous_mask (address_int e f g h))))"
    unfolding cidr_shape_def by (elim exE conjE)
  have slash: "CHR ''/'' \<in> set ''10.0.0.0/1.2.3.4''"
    by simp
  from alt show False
  proof
    assume "''10.0.0.0/1.2.3.4'' = dotted_quad a b c d"
    with slash have "CHR ''/'' \<in> set (dotted_quad a b c d)"
      by (simp only:)
    with dotted_quad_no_slash [of a b c d] show False
      by (simp only: not_True_eq_False)
  next
    assume "\<exists>m. ''10.0.0.0/1.2.3.4'' = dotted_quad a b c d @ ''/'' @ m \<and>
          (prefix_length_text m \<or>
           (\<exists>e f g h. e < 256 \<and> f < 256 \<and> g < 256 \<and> h < 256 \<and> m = dotted_quad e f g h \<and>
              contiguous_mask (address_int e f g h)))"
    then obtain m where
      s0: "''10.0.0.0/1.2.3.4'' = dotted_quad a b c d @ ''/'' @ m"
      and m: "prefix_length_text m \<or>
           (\<exists>e f g h. e < 256 \<and> f < 256 \<and> g < 256 \<and> h < 256 \<and> m = dotted_quad e f g h \<and>
              contiguous_mask (address_int e f g h))"
      by (elim exE conjE)
    have "py_split CHR ''/'' (dotted_quad a b c d @ CHR ''/'' # m) =
        dotted_quad a b c d # py_split CHR ''/'' m"
      by (rule py_split_at_sep [OF dotted_quad_no_slash])
    then have "py_split CHR ''/'' (dotted_quad a b c d @ ''/'' @ m) =
        dotted_quad a b c d # py_split CHR ''/'' m"
      by (simp only: append_Cons append_Nil)
    with s0 have "py_split CHR ''/'' ''10.0.0.0/1.2.3.4'' =
        dotted_quad a b c d # py_split CHR ''/'' m"
      by (simp only:)
    then have "py_split CHR ''/'' m = [''1.2.3.4'']"
      by (simp only: split_scattered list.inject)
    then have m_eq: "m = ''1.2.3.4''"
      by (rule py_split_one)
    from m show False
    proof
      assume "prefix_length_text m"
      with m_eq have "prefix_length_text ''1.2.3.4''"
        by (simp only:)
      with scattered_not_prefix show False
        by (simp only: not_True_eq_False)
    next
      assume "\<exists>e f g h. e < 256 \<and> f < 256 \<and> g < 256 \<and> h < 256 \<and> m = dotted_quad e f g h \<and>
              contiguous_mask (address_int e f g h)"
      then obtain e f g h where
        b: "e < 256" "f < 256" "g < 256" "h < 256" and q: "m = dotted_quad e f g h"
        and cm: "contiguous_mask (address_int e f g h)"
        by (elim exE conjE)
      from q m_eq have "dotted_quad e f g h = ''1.2.3.4''"
        by (simp only:)
      with ip_int_from_string_dotted_quad [OF b]
      have "ip_int_from_string ''1.2.3.4'' = Inr (int (address_int e f g h))"
        by (simp only:)
      with scattered_value have "int (address_int e f g h) = int 16909060"
        by simp
      then have "address_int e f g h = 16909060"
        by (simp only: of_nat_eq_iff)
      with cm have "contiguous_mask 16909060"
        by (simp only:)
      with scattered_mask show False
        by (simp only: not_True_eq_False)
    qed
  qed
qed


lemma not_shape_empty: "\<not> cidr_shape ''''"
  by (simp add: cidr_shape_def dotted_quad_def)


















section \<open>Properties of the provisioning run\<close>

subsection \<open>Projections of the events\<close>

lemma requests_of_append: "requests_of (xs @ ys) = requests_of xs @ requests_of ys"
  by (induction xs rule: requests_of.induct) simp_all

lemma steps_of_append: "steps_of (xs @ ys) = steps_of xs @ steps_of ys"
  by (induction xs rule: steps_of.induct) simp_all

lemma stdout_of_append: "stdout_of (xs @ ys) = stdout_of xs @ stdout_of ys"
  by (induction xs rule: stdout_of.induct) simp_all

subsection \<open>Rules for the programs\<close>

lemma hoare_returns: "(\<And>evs. P evs \<Longrightarrow> Q (Inr v) evs) \<Longrightarrow> hoare P (returns v) Q"
  by (simp add: hoare_def returns_def)

lemma hoare_enter: "(\<And>evs. P evs \<Longrightarrow> Q (Inr ()) (evs @ [Enter c])) \<Longrightarrow> hoare P (enter c) Q"
  by (simp add: hoare_def enter_def)

lemma hoare_print: "(\<And>evs. P evs \<Longrightarrow> Q (Inr ()) (evs @ [Print s])) \<Longrightarrow> hoare P (print s) Q"
  by (simp add: hoare_def print_def)

lemma hoare_remote:
  "(\<And>evs r. P evs \<Longrightarrow> Q r (evs @ [Remote rq r])) \<Longrightarrow> hoare P (remote ec2 rq) Q"
  by (simp add: hoare_def remote_def)

lemma hoare_bind:
  assumes m: "hoare P m R"
    and err: "\<And>e evs. R (Inl e) evs \<Longrightarrow> Q (Inl e) evs"
    and f: "\<And>v. hoare (R (Inr v)) (f v) Q"
  shows "hoare P (bind m f) Q"
proof (unfold hoare_def, intro allI impI)
  fix evs assume "P evs"
  with m have R: "R (fst (m evs)) (snd (m evs))"
    by (simp add: hoare_def)
  show "Q (fst (bind m f evs)) (snd (bind m f evs))"
  proof (cases "fst (m evs)")
    case (Inl e)
    with R err show ?thesis
      by (simp add: bind_def split_beta)
  next
    case (Inr v)
    with R f [of v] show ?thesis
      by (simp add: bind_def split_beta hoare_def)
  qed
qed

lemma hoare_if: "hoare P p Q \<Longrightarrow> hoare P q Q \<Longrightarrow> hoare P (if b then p else q) Q"
  by simp

subsection \<open>A run stops at its first failed request\<close>

lemma stopped_Inr: "stopped (Inr v) = healthy"
  by (rule ext) (simp add: stopped_def)

lemma stops_bind:
  assumes m: "hoare healthy m stopped" and f: "\<And>v. hoare healthy (f v) stopped"
  shows "hoare healthy (bind m f) stopped"
proof (rule hoare_bind [OF m])
  fix e evs assume "stopped (Inl e :: exc + 'a) evs"
  then show "stopped (Inl e :: exc + 'b) evs"
    by (simp add: stopped_def)
next
  fix v show "hoare (stopped (Inr v)) (f v) stopped"
    using f [of v] by (simp add: stopped_Inr)
qed

lemma stops_remote: "hoare healthy (remote ec2 rq) stopped"
  by (rule hoare_remote) (auto simp: stopped_def healthy_def split: sum.splits)

lemma stops_enter: "hoare healthy (enter c) stopped"
  by (rule hoare_enter) (simp add: stopped_def healthy_def)

lemma stops_print: "hoare healthy (print s) stopped"
  by (rule hoare_print) (simp add: stopped_def healthy_def)

lemma stops_returns: "hoare healthy (returns v) stopped"
  by (rule hoare_returns) (simp add: stopped_def)

lemma provision_stops: "hoare healthy (provision ec2 a) stopped"
  unfolding provision_def create_vpc_def create_internet_gateway_def create_subnet_def
    create_route_table_def
  by (intro stops_bind stops_remote stops_enter stops_print stops_returns hoare_if)

lemma first_failure_unique:
  assumes "healthy pre" "healthy tail" "failed y"
    and eq: "pre @ x # tail = pre' @ y # post"
  shows "pre' = pre \<and> post = tail"
proof -
  from eq obtain us where
    "(pre = pre' @ us \<and> us @ x # tail = y # post) \<or> (pre @ us = pre' \<and> x # tail = us @ y # post)"
    by (auto simp: append_eq_append_conv2)
  then show ?thesis
  proof
    assume h: "pre = pre' @ us \<and> us @ x # tail = y # post"
    show ?thesis
    proof (cases us)
      case Nil
      with h show ?thesis by simp
    next
      case (Cons u us')
      with h have "y \<in> set pre" by simp
      with assms show ?thesis by (simp add: healthy_def)
    qed
  next
    assume h: "pre @ us = pre' \<and> x # tail = us @ y # post"
    show ?thesis
    proof (cases us)
      case Nil
      with h show ?thesis by simp
    next
      case (Cons u us')
      with h have "y \<in> set tail" by simp
      with assms show ?thesis by (simp add: healthy_def)
    qed
  qed
qed

text \<open>
  The events of \<open>main\<close>: no failed request at all, or exactly one, followed by
  nothing but the printed error line.
\<close>

lemma main_stops:
  assumes "main lim strip boto3 argv = (out, evs)"
  shows "healthy evs \<or>
    (\<exists>pre rq e tail. evs = pre @ Remote rq (Inl e) # tail \<and> healthy pre \<and> healthy tail
       \<and> steps_of tail = [] \<and> requests_of tail = [])"
proof (cases "parse_args lim strip argv")
  case (Inl err)
  with assms show ?thesis by (auto simp: main_def healthy_def)
next
  case a: (Inr a)
  show ?thesis
  proof (cases boto3)
    case (Inl e)
    with a assms show ?thesis by (auto simp: main_def healthy_def)
  next
    case ec2: (Inr ec2)
    have h0: "healthy [Boto3Resource ''ec2'']" by (simp add: healthy_def)
    obtain r evs' where p: "provision ec2 a [Boto3Resource ''ec2''] = (r, evs')"
      by (cases "provision ec2 a [Boto3Resource ''ec2'']")
    with provision_stops [of ec2 a] h0 have st: "stopped r evs'"
      by (auto simp: hoare_def)
    show ?thesis
    proof (cases r)
      case (Inr u)
      with st p a ec2 assms show ?thesis
        by (auto simp: main_def stopped_def)
    next
      case (Inl e)
      with st obtain pre rq where evs': "evs' = pre @ [Remote rq (Inl e)]" "healthy pre"
        by (auto simp: stopped_def)
      show ?thesis
      proof (cases e)
        case (Exception m)
        with Inl p a ec2 assms evs'
        have "evs = pre @ Remote rq (Inl e) # [Print (cross_mark @ '' Error: '' @ m)]"
          by (auto simp: main_def)
        with evs'(2) show ?thesis
          by (intro disjI2 exI [of _ pre] exI [of _ rq] exI [of _ e]
                exI [of _ "[Print (cross_mark @ '' Error: '' @ m)]"]) (simp add: healthy_def)
      next
        case (BaseException m)
        with Inl p a ec2 assms evs' have "evs = pre @ Remote rq (Inl e) # []"
          by (auto simp: main_def)
        with evs'(2) show ?thesis
          by (intro disjI2 exI [of _ pre] exI [of _ rq] exI [of _ e] exI [of _ "[]"])
            (simp add: healthy_def)
      qed
    qed
  qed
qed

lemma nothing_after_failure:
  assumes run: "main lim strip boto3 argv = (out, evs)"
    and fail: "evs = pre @ Remote rq (Inl e) # post"
  shows "steps_of post = [] \<and> requests_of post = []"
proof -
  from main_stops [OF run] show ?thesis
  proof
    assume "healthy evs"
    with fail show ?thesis by (simp add: healthy_def)
  next
    assume "\<exists>pre rq e tail. evs = pre @ Remote rq (Inl e) # tail \<and> healthy pre \<and> healthy tail
       \<and> steps_of tail = [] \<and> requests_of tail = []"
    then obtain pre0 rq0 e0 tail where
      e: "evs = pre0 @ Remote rq0 (Inl e0) # tail" and h: "healthy pre0" "healthy tail"
      and t: "steps_of tail = []" "requests_of tail = []"
      by blast
    from e fail have "pre0 @ Remote rq0 (Inl e0) # tail = pre @ Remote rq (Inl e) # post"
      by simp
    from first_failure_unique [OF h _ this] have "post = tail" by simp
    with t show ?thesis by simp
  qed
qed

subsection \<open>Runs on the example clients\<close>

lemma run_failing_at_5:
  "main 4300 False (Inr (stub_failing_at 5 (Exception ''boom''))) demo_argv =
     (SystemExit 1,
      (Boto3Resource ''ec2'' # demo_step1 @ demo_step2 @
        [Enter (Call_create_subnet ''vpc-1'' (Str ''10.0.1.0/24'') ''PublicSubnet'' (Str ''us-east-1a''))])
      @ Remote (CreateSubnet ''vpc-1'' (Str ''10.0.1.0/24'') (Str ''us-east-1a'')) (Inl (Exception ''boom''))
        # [Print (cross_mark @ '' Error: boom'')])"
  by code_simp

subsection \<open>Stopping at the first failure\<close>

text \<open>
  C2. Whatever step a client fails at, no step function is called and no request is
  sent after the request that raised: in the events of any run of \<open>main\<close>, a failed
  request is followed by no call of a step function and by no request.
\<close>

theorem no_step_after_failure:
  assumes "main max_str_digits strips_dashes boto3_resource argv = (out, evs)"
    and "evs = pre @ Remote rq (Inl e) # post"
  shows "steps_of post = [] \<and> requests_of post = []"
  using assms by (rule nothing_after_failure)

theorem no_step_after_failure_witness:
  "steps_of [Print (cross_mark @ '' Error: boom'')] = []
   \<and> requests_of [Print (cross_mark @ '' Error: boom'')] = []"
  by (rule no_step_after_failure [OF run_failing_at_5 refl])

subsection \<open>No teardown request\<close>

lemma keeps_bind:
  assumes "hoare constructive m (\<lambda>r. constructive)"
    and "\<And>v. hoare constructive (f v) (\<lambda>r. constructive)"
  shows "hoare constructive (bind m f) (\<lambda>r. constructive)"
  using assms(1) by (rule hoare_bind) (simp_all add: assms(2))

lemma keeps_remote: "\<not> teardown rq \<Longrightarrow> hoare constructive (remote ec2 rq) (\<lambda>r. constructive)"
  by (rule hoare_remote) (simp add: constructive_def requests_of_append)

lemma keeps_enter: "hoare constructive (enter c) (\<lambda>r. constructive)"
  by (rule hoare_enter) (simp add: constructive_def requests_of_append)

lemma keeps_print: "hoare constructive (print s) (\<lambda>r. constructive)"
  by (rule hoare_print) (simp add: constructive_def requests_of_append)

lemma keeps_returns: "hoare constructive (returns v) (\<lambda>r. constructive)"
  by (rule hoare_returns) simp

lemma provision_constructive: "hoare constructive (provision ec2 a) (\<lambda>r. constructive)"
  unfolding provision_def create_vpc_def create_internet_gateway_def create_subnet_def
    create_route_table_def
  by (intro keeps_bind keeps_enter keeps_print keeps_returns hoare_if keeps_remote) simp_all

lemma main_constructive:
  assumes "main lim strip boto3 argv = (out, evs)"
  shows "constructive evs"
proof (cases "parse_args lim strip argv")
  case (Inl err)
  with assms show ?thesis by (auto simp: main_def constructive_def)
next
  case a: (Inr a)
  show ?thesis
  proof (cases boto3)
    case (Inl e)
    with a assms show ?thesis by (auto simp: main_def constructive_def)
  next
    case ec2: (Inr ec2)
    have "constructive [Boto3Resource ''ec2'']"
      by (simp add: constructive_def)
    with provision_constructive [of ec2 a]
    have c: "constructive (snd (provision ec2 a [Boto3Resource ''ec2'']))"
      by (simp add: hoare_def)
    from assms a ec2 have
      "evs = snd (provision ec2 a [Boto3Resource ''ec2'']) \<or>
       (\<exists>s. evs = snd (provision ec2 a [Boto3Resource ''ec2'']) @ [Print s])"
      by (auto simp: main_def split: prod.splits sum.splits exc.splits)
    with c show ?thesis
      by (auto simp: constructive_def requests_of_append)
  qed
qed

text \<open>
  C4. No rollback: a run in which a request fails sends no delete, detach or other
  teardown request, neither before the failure nor after it; after the failed request
  it sends no request at all, so whatever the earlier requests created stays as it is.
\<close>

theorem no_rollback:
  assumes "main max_str_digits strips_dashes boto3_resource argv = (out, evs)"
    and "evs = pre @ Remote rq (Inl e) # post"
  shows "(\<forall>rq' \<in> set (requests_of evs). \<not> teardown rq') \<and> requests_of post = []"
proof
  from assms(1) have "constructive evs"
    by (rule main_constructive)
  then show "\<forall>rq' \<in> set (requests_of evs). \<not> teardown rq'"
    by (simp add: constructive_def)
next
  from assms show "requests_of post = []"
    by (simp add: nothing_after_failure)
qed

theorem no_rollback_witness:
  "list_all (\<lambda>rq'. \<not> teardown rq')
     (requests_of
       ((Boto3Resource ''ec2'' # demo_step1 @ demo_step2 @
         [Enter (Call_create_subnet ''vpc-1'' (Str ''10.0.1.0/24'') ''PublicSubnet'' (Str ''us-east-1a''))])
        @ Remote (CreateSubnet ''vpc-1'' (Str ''10.0.1.0/24'') (Str ''us-east-1a'')) (Inl (Exception ''boom''))
          # [Print (cross_mark @ '' Error: boom'')]))
   \<and> requests_of [Print (cross_mark @ '' Error: boom'')] = []"
  using no_rollback [OF run_failing_at_5 refl] by (simp add: list_all_iff)

section \<open>Properties of the command line\<close>













subsection \<open>The run on which every call succeeds\<close>

lemmas step_defs = bind_def returns_def enter_def remote_def print_def

lemma create_vpc_ok:
  assumes ok: "\<forall>hist rq. \<exists>h. ec2 hist rq = Inr h"
  shows "\<exists>vpc new. create_vpc ec2 c n evs = (Inr vpc, evs @ new) \<and>
           steps_of new = [Call_create_vpc c n] \<and>
           requests_of new = [CreateVpc c, WaitUntilAvailable vpc, CreateTags vpc ''Name'' n]"
proof -
  from ok obtain g where g: "\<And>hist rq. ec2 hist rq = Inr (g hist rq)"
    by metis
  show ?thesis
    by (simp add: create_vpc_def step_defs g)
qed

lemma create_internet_gateway_ok:
  assumes ok: "\<forall>hist rq. \<exists>h. ec2 hist rq = Inr h"
    and gw: "\<forall>hist. ec2 hist CreateInternetGateway \<noteq> Inr []"
  shows "\<exists>igw new. create_internet_gateway ec2 vpc evs = (Inr igw, evs @ new) \<and> igw \<noteq> [] \<and>
           steps_of new = [Call_create_internet_gateway vpc] \<and>
           requests_of new = [CreateInternetGateway, AttachToVpc igw vpc] \<and>
           Remote CreateInternetGateway (Inr igw) \<in> set new"
proof -
  from ok obtain g where g: "\<And>hist rq. ec2 hist rq = Inr (g hist rq)"
    by metis
  from gw g have "\<And>hist. g hist CreateInternetGateway \<noteq> []"
    by simp
  then show ?thesis
    by (simp add: create_internet_gateway_def step_defs g)
qed

lemma create_subnet_ok:
  assumes ok: "\<forall>hist rq. \<exists>h. ec2 hist rq = Inr h"
  shows "\<exists>subnet new. create_subnet ec2 vpc c name az evs = (Inr subnet, evs @ new) \<and>
           steps_of new = [Call_create_subnet vpc c name az] \<and>
           requests_of new = [CreateSubnet vpc c az, CreateTags subnet ''Name'' (Str name)]"
proof -
  from ok obtain g where g: "\<And>hist rq. ec2 hist rq = Inr (g hist rq)"
    by metis
  show ?thesis
    by (simp add: create_subnet_def step_defs g)
qed

lemma create_route_table_public_ok:
  assumes ok: "\<forall>hist rq. \<exists>h. ec2 hist rq = Inr h" and "igw \<noteq> []"
  shows "\<exists>table new. create_route_table ec2 vpc subnet (Some igw) name evs = (Inr table, evs @ new) \<and>
           steps_of new = [Call_create_route_table vpc subnet (Some igw) name] \<and>
           requests_of new = [CreateRouteTable vpc, CreateTags table ''Name'' (Str name),
             AssociateWithSubnet table subnet, CreateRoute table ''0.0.0.0/0'' igw]"
proof -
  from ok obtain g where g: "\<And>hist rq. ec2 hist rq = Inr (g hist rq)"
    by metis
  from \<open>igw \<noteq> []\<close> show ?thesis
    by (simp add: create_route_table_def step_defs truthy_def g)
qed

lemma create_route_table_private_ok:
  assumes ok: "\<forall>hist rq. \<exists>h. ec2 hist rq = Inr h"
  shows "\<exists>table new. create_route_table ec2 vpc subnet None name evs = (Inr table, evs @ new) \<and>
           steps_of new = [Call_create_route_table vpc subnet None name] \<and>
           requests_of new = [CreateRouteTable vpc, CreateTags table ''Name'' (Str name),
             AssociateWithSubnet table subnet]"
proof -
  from ok obtain g where g: "\<And>hist rq. ec2 hist rq = Inr (g hist rq)"
    by metis
  show ?thesis
    by (simp add: create_route_table_def step_defs truthy_def g)
qed


text \<open>
  C3, amended. On every client on which all calls succeed and whose gateway \<open>id\<close> is
  not the empty string, \<open>main\<close> returns after calling the six step functions in the
  fixed order; the call for the public route table receives the gateway handle that
  \<open>create_internet_gateway\<close> obtained, the call for the private one receives \<open>None\<close>,
  and the only route requested is \<open>0.0.0.0/0\<close> through that gateway on the table
  associated with the public subnet.
\<close>

theorem provisioning_order:
  assumes parse: "parse_args max_str_digits strips_dashes argv = Inr a"
    and ok: "\<forall>hist rq. \<exists>h. ec2 hist rq = Inr h"
    and gw: "\<forall>hist. ec2 hist CreateInternetGateway \<noteq> Inr []"
  shows "\<exists>evs vpc igw pub priv t1 t2.
     main max_str_digits strips_dashes (Inr ec2) argv = (Returned, evs) \<and>
     Remote CreateInternetGateway (Inr igw) \<in> set evs \<and>
     steps_of evs =
       [Call_create_vpc (vpc_cidr a) (vpc_name a),
        Call_create_internet_gateway vpc,
        Call_create_subnet vpc (public_subnet_cidr a) ''PublicSubnet'' (availability_zone a),
        Call_create_subnet vpc (private_subnet_cidr a) ''PrivateSubnet'' (availability_zone a),
        Call_create_route_table vpc pub (Some igw) ''PublicRouteTable'',
        Call_create_route_table vpc priv None ''PrivateRouteTable''] \<and>
     requests_of evs =
       [CreateVpc (vpc_cidr a), WaitUntilAvailable vpc, CreateTags vpc ''Name'' (vpc_name a),
        CreateInternetGateway, AttachToVpc igw vpc,
        CreateSubnet vpc (public_subnet_cidr a) (availability_zone a),
        CreateTags pub ''Name'' (Str ''PublicSubnet''),
        CreateSubnet vpc (private_subnet_cidr a) (availability_zone a),
        CreateTags priv ''Name'' (Str ''PrivateSubnet''),
        CreateRouteTable vpc, CreateTags t1 ''Name'' (Str ''PublicRouteTable''),
        AssociateWithSubnet t1 pub, CreateRoute t1 ''0.0.0.0/0'' igw,
        CreateRouteTable vpc, CreateTags t2 ''Name'' (Str ''PrivateRouteTable''),
        AssociateWithSubnet t2 priv]"
proof -
  let ?b = "Boto3Resource ''ec2''"
  from create_vpc_ok [OF ok, where c = "vpc_cidr a" and n = "vpc_name a" and evs = "[?b]"]
  obtain vpc n1 where s1:
    "create_vpc ec2 (vpc_cidr a) (vpc_name a) [?b] = (Inr vpc, ?b # n1)"
    "steps_of n1 = [Call_create_vpc (vpc_cidr a) (vpc_name a)]"
    "requests_of n1 =
       [CreateVpc (vpc_cidr a), WaitUntilAvailable vpc, CreateTags vpc ''Name'' (vpc_name a)]"
    by auto
  from create_internet_gateway_ok [OF ok gw, where vpc = vpc and evs = "?b # n1"]
  obtain igw n2 where s2:
    "create_internet_gateway ec2 vpc (?b # n1) = (Inr igw, ?b # n1 @ n2)" "igw \<noteq> []"
    "steps_of n2 = [Call_create_internet_gateway vpc]"
    "requests_of n2 = [CreateInternetGateway, AttachToVpc igw vpc]"
    "Remote CreateInternetGateway (Inr igw) \<in> set n2"
    by auto
  from create_subnet_ok
    [OF ok, where vpc = vpc and c = "public_subnet_cidr a" and name = "''PublicSubnet''"
      and az = "availability_zone a" and evs = "?b # n1 @ n2"]
  obtain pub n3 where s3:
    "create_subnet ec2 vpc (public_subnet_cidr a) ''PublicSubnet'' (availability_zone a)
       (?b # n1 @ n2) = (Inr pub, ?b # n1 @ n2 @ n3)"
    "steps_of n3 =
       [Call_create_subnet vpc (public_subnet_cidr a) ''PublicSubnet'' (availability_zone a)]"
    "requests_of n3 =
       [CreateSubnet vpc (public_subnet_cidr a) (availability_zone a),
        CreateTags pub ''Name'' (Str ''PublicSubnet'')]"
    by auto
  from create_subnet_ok
    [OF ok, where vpc = vpc and c = "private_subnet_cidr a" and name = "''PrivateSubnet''"
      and az = "availability_zone a" and evs = "?b # n1 @ n2 @ n3"]
  obtain priv n4 where s4:
    "create_subnet ec2 vpc (private_subnet_cidr a) ''PrivateSubnet'' (availability_zone a)
       (?b # n1 @ n2 @ n3) = (Inr priv, ?b # n1 @ n2 @ n3 @ n4)"
    "steps_of n4 =
       [Call_create_subnet vpc (private_subnet_cidr a) ''PrivateSubnet'' (availability_zone a)]"
    "requests_of n4 =
       [CreateSubnet vpc (private_subnet_cidr a) (availability_zone a),
        CreateTags priv ''Name'' (Str ''PrivateSubnet'')]"
    by auto
  from create_route_table_public_ok
    [OF ok s2(2), where vpc = vpc and subnet = pub and name = "''PublicRouteTable''"
      and evs = "?b # n1 @ n2 @ n3 @ n4"]
  obtain t1 n5 where s5:
    "create_route_table ec2 vpc pub (Some igw) ''PublicRouteTable'' (?b # n1 @ n2 @ n3 @ n4) =
       (Inr t1, ?b # n1 @ n2 @ n3 @ n4 @ n5)"
    "steps_of n5 = [Call_create_route_table vpc pub (Some igw) ''PublicRouteTable'']"
    "requests_of n5 =
       [CreateRouteTable vpc, CreateTags t1 ''Name'' (Str ''PublicRouteTable''),
        AssociateWithSubnet t1 pub, CreateRoute t1 ''0.0.0.0/0'' igw]"
    by auto
  from create_route_table_private_ok
    [OF ok, where vpc = vpc and subnet = priv and name = "''PrivateRouteTable''"
      and evs = "?b # n1 @ n2 @ n3 @ n4 @ n5"]
  obtain t2 n6 where s6:
    "create_route_table ec2 vpc priv None ''PrivateRouteTable'' (?b # n1 @ n2 @ n3 @ n4 @ n5) =
       (Inr t2, ?b # n1 @ n2 @ n3 @ n4 @ n5 @ n6)"
    "steps_of n6 = [Call_create_route_table vpc priv None ''PrivateRouteTable'']"
    "requests_of n6 =
       [CreateRouteTable vpc, CreateTags t2 ''Name'' (Str ''PrivateRouteTable''),
        AssociateWithSubnet t2 priv]"
    by auto
  let ?evs = "?b # n1 @ n2 @ n3 @ n4 @ n5 @ n6 @
                [Print (party_popper @ '' All resources created successfully!'')]"
  have b1: "bind (create_vpc ec2 (vpc_cidr a) (vpc_name a)) f [?b] = f vpc (?b # n1)" for f :: "handle \<Rightarrow> unit prog"
    by (simp add: bind_def s1(1))
  have b2: "bind (create_internet_gateway ec2 vpc) f (?b # n1) = f igw (?b # n1 @ n2)" for f :: "handle \<Rightarrow> unit prog"
    by (simp add: bind_def s2(1))
  have b3: "bind (create_subnet ec2 vpc (public_subnet_cidr a) ''PublicSubnet'' (availability_zone a)) f
              (?b # n1 @ n2) = f pub (?b # n1 @ n2 @ n3)" for f :: "handle \<Rightarrow> unit prog"
    by (simp add: bind_def s3(1))
  have b4: "bind (create_subnet ec2 vpc (private_subnet_cidr a) ''PrivateSubnet'' (availability_zone a)) f
              (?b # n1 @ n2 @ n3) = f priv (?b # n1 @ n2 @ n3 @ n4)" for f :: "handle \<Rightarrow> unit prog"
    by (simp add: bind_def s4(1))
  have b5: "bind (create_route_table ec2 vpc pub (Some igw) ''PublicRouteTable'') f
              (?b # n1 @ n2 @ n3 @ n4) = f t1 (?b # n1 @ n2 @ n3 @ n4 @ n5)" for f :: "handle \<Rightarrow> unit prog"
    by (simp add: bind_def s5(1))
  have b6: "bind (create_route_table ec2 vpc priv None ''PrivateRouteTable'') f
              (?b # n1 @ n2 @ n3 @ n4 @ n5) = f t2 (?b # n1 @ n2 @ n3 @ n4 @ n5 @ n6)" for f :: "handle \<Rightarrow> unit prog"
    by (simp add: bind_def s6(1))
  have "provision ec2 a [?b] = (Inr (), ?evs)"
    by (simp only: provision_def b1 b2 b3 b4 b5 b6 print_def append_Cons append_assoc)
  then have run: "main max_str_digits strips_dashes (Inr ec2) argv = (Returned, ?evs)"
    by (simp add: main_def parse)
  have mem: "Remote CreateInternetGateway (Inr igw) \<in> set ?evs"
    using s2(5) by simp
  have st: "steps_of ?evs =
       [Call_create_vpc (vpc_cidr a) (vpc_name a),
        Call_create_internet_gateway vpc,
        Call_create_subnet vpc (public_subnet_cidr a) ''PublicSubnet'' (availability_zone a),
        Call_create_subnet vpc (private_subnet_cidr a) ''PrivateSubnet'' (availability_zone a),
        Call_create_route_table vpc pub (Some igw) ''PublicRouteTable'',
        Call_create_route_table vpc priv None ''PrivateRouteTable'']"
    by (simp add: steps_of_append s1(2) s2(3) s3(2) s4(2) s5(2) s6(2))
  have rq: "requests_of ?evs =
       [CreateVpc (vpc_cidr a), WaitUntilAvailable vpc, CreateTags vpc ''Name'' (vpc_name a),
        CreateInternetGateway, AttachToVpc igw vpc,
        CreateSubnet vpc (public_subnet_cidr a) (availability_zone a),
        CreateTags pub ''Name'' (Str ''PublicSubnet''),
        CreateSubnet vpc (private_subnet_cidr a) (availability_zone a),
        CreateTags priv ''Name'' (Str ''PrivateSubnet''),
        CreateRouteTable vpc, CreateTags t1 ''Name'' (Str ''PublicRouteTable''),
        AssociateWithSubnet t1 pub, CreateRoute t1 ''0.0.0.0/0'' igw,
        CreateRouteTable vpc, CreateTags t2 ''Name'' (Str ''PrivateRouteTable''),
        AssociateWithSubnet t2 priv]"
    by (simp add: requests_of_append s1(3) s2(4) s3(3) s4(3) s5(3) s6(3))
  from run mem st rq show ?thesis
    by (intro exI [of _ ?evs] exI [of _ vpc] exI [of _ igw] exI [of _ pub] exI [of _ priv]
          exI [of _ t1] exI [of _ t2] conjI)
qed

lemma parse_args_demo:
  "parse_args 4300 False demo_argv =
     Inr \<lparr>vpc_cidr = Str ''10.0.0.0/16'', vpc_name = Str ''demo'', public_subnet_cidr = Str ''10.0.1.0/24'',
          private_subnet_cidr = Str ''10.0.2.0/24'', availability_zone = Str ''us-east-1a''\<rparr>"
  by code_simp

theorem provisioning_order_witness:
  "\<exists>evs vpc igw pub priv t1 t2.
     main 4300 False (Inr stub_ok) demo_argv = (Returned, evs) \<and>
     Remote CreateInternetGateway (Inr igw) \<in> set evs \<and>
     steps_of evs =
       [Call_create_vpc (Str ''10.0.0.0/16'') (Str ''demo''),
        Call_create_internet_gateway vpc,
        Call_create_subnet vpc (Str ''10.0.1.0/24'') ''PublicSubnet'' (Str ''us-east-1a''),
        Call_create_subnet vpc (Str ''10.0.2.0/24'') ''PrivateSubnet'' (Str ''us-east-1a''),
        Call_create_route_table vpc pub (Some igw) ''PublicRouteTable'',
        Call_create_route_table vpc priv None ''PrivateRouteTable''] \<and>
     requests_of evs =
       [CreateVpc (Str ''10.0.0.0/16''), WaitUntilAvailable vpc, CreateTags vpc ''Name'' (Str ''demo''),
        CreateInternetGateway, AttachToVpc igw vpc,
        CreateSubnet vpc (Str ''10.0.1.0/24'') (Str ''us-east-1a''),
        CreateTags pub ''Name'' (Str ''PublicSubnet''),
        CreateSubnet vpc (Str ''10.0.2.0/24'') (Str ''us-east-1a''),
        CreateTags priv ''Name'' (Str ''PrivateSubnet''),
        CreateRouteTable vpc, CreateTags t1 ''Name'' (Str ''PublicRouteTable''),
        AssociateWithSubnet t1 pub, CreateRoute t1 ''0.0.0.0/0'' igw,
        CreateRouteTable vpc, CreateTags t2 ''Name'' (Str ''PrivateRouteTable''),
        AssociateWithSubnet t2 priv]"
proof -
  have ok: "\<forall>hist rq. \<exists>h. stub_ok hist rq = Inr h"
    by (simp add: stub_ok_def)
  have gw: "\<forall>hist. stub_ok hist CreateInternetGateway \<noteq> Inr []"
    by (simp add: stub_ok_def)
  from provisioning_order [OF parse_args_demo ok gw] show ?thesis
    by simp
qed

text \<open>
  C3 as stated fails on a client whose calls all succeed and whose gateway has the
  empty \<open>id\<close>: \<open>if igw_id:\<close> is false for the empty string, and the public route
  table gets no default route. The six step functions are still called in order.
\<close>

theorem empty_gateway_handle_no_route:
  "fst (main 4300 False (Inr stub_empty_gateway) demo_argv) = Returned
   \<and> steps_of (snd (main 4300 False (Inr stub_empty_gateway) demo_argv)) =
      [Call_create_vpc (Str ''10.0.0.0/16'') (Str ''demo''),
       Call_create_internet_gateway ''vpc-1'',
       Call_create_subnet ''vpc-1'' (Str ''10.0.1.0/24'') ''PublicSubnet'' (Str ''us-east-1a''),
       Call_create_subnet ''vpc-1'' (Str ''10.0.2.0/24'') ''PrivateSubnet'' (Str ''us-east-1a''),
       Call_create_route_table ''vpc-1'' ''subnet-10.0.1.0/24'' (Some '''') ''PublicRouteTable'',
       Call_create_route_table ''vpc-1'' ''subnet-10.0.2.0/24'' None ''PrivateRouteTable'']
   \<and> requests_of (snd (main 4300 False (Inr stub_empty_gateway) demo_argv)) =
      [CreateVpc (Str ''10.0.0.0/16''), WaitUntilAvailable ''vpc-1'',
       CreateTags ''vpc-1'' ''Name'' (Str ''demo''), CreateInternetGateway,
       AttachToVpc '''' ''vpc-1'',
       CreateSubnet ''vpc-1'' (Str ''10.0.1.0/24'') (Str ''us-east-1a''),
       CreateTags ''subnet-10.0.1.0/24'' ''Name'' (Str ''PublicSubnet''),
       CreateSubnet ''vpc-1'' (Str ''10.0.2.0/24'') (Str ''us-east-1a''),
       CreateTags ''subnet-10.0.2.0/24'' ''Name'' (Str ''PrivateSubnet''),
       CreateRouteTable ''vpc-1'', CreateTags ''rtb-1'' ''Name'' (Str ''PublicRouteTable''),
       AssociateWithSubnet ''rtb-1'' ''subnet-10.0.1.0/24'',
       CreateRouteTable ''vpc-1'', CreateTags ''rtb-2'' ''Name'' (Str ''PrivateRouteTable''),
       AssociateWithSubnet ''rtb-2'' ''subnet-10.0.2.0/24'']"
  by code_simp

subsection \<open>The shape of a run\<close>

lemmas prog_defs = provision_def create_vpc_def create_internet_gateway_def create_subnet_def
  create_route_table_def bind_def returns_def enter_def remote_def print_def truthy_def

text \<open>
  A run with a failed request: the arguments were parsed, the client was constructed,
  the \<open>try\<close> body raised what the request raised, and the handler decided the rest.
\<close>

lemma main_failure:
  assumes run: "main lim strip boto3 argv = (out, evs)"
    and fail: "evs = pre @ Remote rq (Inl e) # post"
  shows "\<exists>a ec2. parse_args lim strip argv = Inr a \<and> boto3 = Inr ec2 \<and>
           provision ec2 a [Boto3Resource ''ec2''] = (Inl e, pre @ [Remote rq (Inl e)]) \<and>
           post = (case e of Exception m \<Rightarrow> [Print (cross_mark @ '' Error: '' @ m)]
                   | BaseException m \<Rightarrow> []) \<and>
           out = (case e of Exception m \<Rightarrow> SystemExit 1 | BaseException m \<Rightarrow> Uncaught e)"
proof (cases "parse_args lim strip argv")
  case (Inl err)
  with run fail show ?thesis
    by (auto simp: main_def Cons_eq_append_conv)
next
  case a: (Inr a)
  show ?thesis
  proof (cases boto3)
    case (Inl e')
    with a run fail show ?thesis
      by (auto simp: main_def Cons_eq_append_conv)
  next
    case ec2: (Inr ec2)
    have h0: "healthy [Boto3Resource ''ec2'']"
      by (simp add: healthy_def)
    obtain r evs' where p: "provision ec2 a [Boto3Resource ''ec2''] = (r, evs')"
      by (cases "provision ec2 a [Boto3Resource ''ec2'']")
    with provision_stops [of ec2 a] h0 have st: "stopped r evs'"
      by (auto simp: hoare_def)
    show ?thesis
    proof (cases r)
      case (Inr u)
      with st p a ec2 run have "healthy evs"
        by (auto simp: main_def stopped_def)
      with fail show ?thesis
        by (simp add: healthy_def)
    next
      case (Inl e0)
      with st obtain pre0 rq0 where evs': "evs' = pre0 @ [Remote rq0 (Inl e0)]" "healthy pre0"
        by (auto simp: stopped_def)
      define tail where "tail = (case e0 of Exception m \<Rightarrow> [Print (cross_mark @ '' Error: '' @ m)]
                   | BaseException m \<Rightarrow> [])"
      from Inl p a ec2 run evs' have evs: "evs = pre0 @ Remote rq0 (Inl e0) # tail"
        and out: "out = (case e0 of Exception m \<Rightarrow> SystemExit 1 | BaseException m \<Rightarrow> Uncaught e0)"
        by (auto simp: main_def tail_def split: exc.splits)
      have "healthy tail"
        by (cases e0) (simp_all add: tail_def healthy_def)
      from evs fail have "pre0 @ Remote rq0 (Inl e0) # tail = pre @ Remote rq (Inl e) # post"
        by simp
      from first_failure_unique [OF evs'(2) \<open>healthy tail\<close> _ this]
      have eq: "pre = pre0" "post = tail"
        by simp_all
      with evs fail have "rq = rq0" "e = e0"
        by simp_all
      with eq a ec2 p Inl evs' out show ?thesis
        by (cases e0) (simp_all add: tail_def)
    qed
  qed
qed

lemma main_events:
  assumes "main lim strip boto3 argv = (out, evs)"
  shows "(\<exists>err. evs = [ParserError err]) \<or> evs = [Boto3Resource ''ec2''] \<or>
         (\<exists>a ec2 res evs'. provision ec2 a [Boto3Resource ''ec2''] = (res, evs') \<and>
            (evs = evs' \<or> (\<exists>s. evs = evs' @ [Print s])))"
proof (cases "parse_args lim strip argv")
  case (Inl err)
  with assms show ?thesis
    by (auto simp: main_def)
next
  case a: (Inr a)
  show ?thesis
  proof (cases boto3)
    case (Inl e)
    with a assms show ?thesis
      by (auto simp: main_def)
  next
    case (Inr ec2)
    obtain res evs' where p: "provision ec2 a [Boto3Resource ''ec2''] = (res, evs')"
      by (cases "provision ec2 a [Boto3Resource ''ec2'']")
    with a Inr assms have "evs = evs' \<or> (\<exists>s. evs = evs' @ [Print s])"
      by (auto simp: main_def split: sum.splits exc.splits)
    with p show ?thesis
      by blast
  qed
qed

lemma request_before_last_print:
  assumes "xs @ [Print s] = pre @ Remote rq r # post"
  shows "\<exists>post'. xs = pre @ Remote rq r # post'"
proof (cases post rule: rev_cases)
  case Nil
  with assms show ?thesis
    by simp
next
  case (snoc post' x)
  with assms have "xs @ [Print s] = (pre @ Remote rq r # post') @ [x]"
    by simp
  then have "xs = pre @ Remote rq r # post'"
    by (simp only: append1_eq_conv)
  then show ?thesis
    by blast
qed

subsection \<open>The availability wait\<close>

lemma wait_before_subnet_provision:
  "provision ec2 a [Boto3Resource ''ec2''] = (res, evs) \<Longrightarrow>
   evs = pre @ Remote (CreateSubnet v c z) r # post \<Longrightarrow>
   \<exists>h. Remote (WaitUntilAvailable v) (Inr h) \<in> set pre"
  by (auto simp add: prog_defs Cons_eq_append_conv split: sum.splits prod.splits if_splits)

lemma wait_failure_provision:
  "provision ec2 a [Boto3Resource ''ec2''] = (res, evs) \<Longrightarrow>
   evs = pre @ Remote (WaitUntilAvailable v) r # post \<Longrightarrow>
   pre = [Boto3Resource ''ec2'', Enter (Call_create_vpc (vpc_cidr a) (vpc_name a)),
          Remote (CreateVpc (vpc_cidr a)) (Inr v)]"
  by (auto simp add: prog_defs Cons_eq_append_conv split: sum.splits prod.splits if_splits)

lemma run_failing_at_1:
  "main 4300 False (Inr (stub_failing_at 1 (Exception ''timeout''))) demo_argv =
     (SystemExit 1,
      [Boto3Resource ''ec2'', Enter (Call_create_vpc (Str ''10.0.0.0/16'') (Str ''demo'')),
       Remote (CreateVpc (Str ''10.0.0.0/16'')) (Inr ''vpc-1'')]
      @ Remote (WaitUntilAvailable ''vpc-1'') (Inl (Exception ''timeout''))
        # [Print (cross_mark @ '' Error: timeout'')])"
  by code_simp

text \<open>
  C7. In every run, a request that creates a subnet in a VPC comes after a request
  that waited for that VPC to be available and returned. When the wait raises, that
  is the failure of the run: the wait was requested once, directly after the VPC was
  created inside \<open>create_vpc\<close>, nothing but the error line follows, and the process
  ends as for any raised exception (status 1 for an \<open>Exception\<close>).
\<close>

theorem wait_before_subnets:
  assumes run: "main max_str_digits strips_dashes boto3_resource argv = (out, evs)"
  shows "(\<forall>pre v c z r post. evs = pre @ Remote (CreateSubnet v c z) r # post \<longrightarrow>
            (\<exists>h. Remote (WaitUntilAvailable v) (Inr h) \<in> set pre))
       \<and> (\<forall>pre v e post. evs = pre @ Remote (WaitUntilAvailable v) (Inl e) # post \<longrightarrow>
            (\<exists>c n. pre = [Boto3Resource ''ec2'', Enter (Call_create_vpc c n),
                           Remote (CreateVpc c) (Inr v)])
            \<and> post = (case e of Exception m \<Rightarrow> [Print (cross_mark @ '' Error: '' @ m)]
                       | BaseException m \<Rightarrow> [])
            \<and> out = (case e of Exception m \<Rightarrow> SystemExit 1 | BaseException m \<Rightarrow> Uncaught e))"
proof (intro conjI allI impI)
  fix pre v c z r post
  assume d: "evs = pre @ Remote (CreateSubnet v c z) r # post"
  from main_events [OF run] show "\<exists>h. Remote (WaitUntilAvailable v) (Inr h) \<in> set pre"
  proof (elim disjE exE conjE)
    fix err assume "evs = [ParserError err]"
    with d show ?thesis
      by (simp add: Cons_eq_append_conv)
  next
    assume "evs = [Boto3Resource ''ec2'']"
    with d show ?thesis
      by (simp add: Cons_eq_append_conv)
  next
    fix a ec2 res evs'
    assume p: "provision ec2 a [Boto3Resource ''ec2''] = (res, evs')" and "evs = evs'"
    with d show ?thesis
      by (simp add: wait_before_subnet_provision)
  next
    fix a ec2 res evs' s
    assume p: "provision ec2 a [Boto3Resource ''ec2''] = (res, evs')"
      and "evs = evs' @ [Print s]"
    with d have "evs' @ [Print s] = pre @ Remote (CreateSubnet v c z) r # post"
      by simp
    then obtain post' where "evs' = pre @ Remote (CreateSubnet v c z) r # post'"
      using request_before_last_print by blast
    with p show ?thesis
      by (rule wait_before_subnet_provision)
  qed
next
  fix pre v e post
  assume d: "evs = pre @ Remote (WaitUntilAvailable v) (Inl e) # post"
  from main_failure [OF run d] obtain a ec2 where
    p: "provision ec2 a [Boto3Resource ''ec2''] =
          (Inl e, pre @ [Remote (WaitUntilAvailable v) (Inl e)])"
    and rest: "post = (case e of Exception m \<Rightarrow> [Print (cross_mark @ '' Error: '' @ m)]
                       | BaseException m \<Rightarrow> [])"
      "out = (case e of Exception m \<Rightarrow> SystemExit 1 | BaseException m \<Rightarrow> Uncaught e)"
    by blast
  from wait_failure_provision [OF p, of pre v "Inl e" "[]"]
  have "pre = [Boto3Resource ''ec2'', Enter (Call_create_vpc (vpc_cidr a) (vpc_name a)),
          Remote (CreateVpc (vpc_cidr a)) (Inr v)]"
    by simp
  then show "\<exists>c n. pre = [Boto3Resource ''ec2'', Enter (Call_create_vpc c n),
                           Remote (CreateVpc c) (Inr v)]"
    by blast
  from rest show "post = (case e of Exception m \<Rightarrow> [Print (cross_mark @ '' Error: '' @ m)]
                       | BaseException m \<Rightarrow> [])"
    by simp
  from rest show "out = (case e of Exception m \<Rightarrow> SystemExit 1 | BaseException m \<Rightarrow> Uncaught e)"
    by simp
qed

theorem wait_before_subnets_witness:
  "(\<exists>h. Remote (WaitUntilAvailable ''vpc-1'') (Inr h) \<in>
       set (Boto3Resource ''ec2'' # demo_step1 @ demo_step2 @
         [Enter (Call_create_subnet ''vpc-1'' (Str ''10.0.1.0/24'') ''PublicSubnet'' (Str ''us-east-1a''))]))
   \<and> (\<exists>c n. [Boto3Resource ''ec2'', Enter (Call_create_vpc (Str ''10.0.0.0/16'') (Str ''demo'')),
               Remote (CreateVpc (Str ''10.0.0.0/16'')) (Inr ''vpc-1'')] =
              [Boto3Resource ''ec2'', Enter (Call_create_vpc c n),
               Remote (CreateVpc c) (Inr ''vpc-1'')])
   \<and> SystemExit 1 = (case Exception ''timeout'' of Exception m \<Rightarrow> SystemExit 1
                       | BaseException m \<Rightarrow> Uncaught (Exception ''timeout''))"
  using wait_before_subnets [OF run_failing_at_5] wait_before_subnets [OF run_failing_at_1]
  by blast

subsection \<open>What a failed run reports\<close>

lemma created_append: "created (xs @ ys) = created xs @ created ys"
  by (induction xs rule: created.induct) simp_all

lemma confirmations_provision:
  "provision ec2 a [Boto3Resource ''ec2''] = (Inl e, evs) \<Longrightarrow>
   1 \<le> length (steps_of evs) \<and> length (steps_of evs) \<le> 6 \<and>
   length (stdout_of evs) = length (steps_of evs) - 1 \<and>
   stdout_of evs = take (length (steps_of evs) - 1) (confirmation_lines (created evs))"
  by (auto simp add: prog_defs vpc_line_def igw_line_def subnet_line_def public_table_line_def
        split: sum.splits prod.splits if_splits)

lemma run_failing_at_15:
  "main 4300 False (Inr (stub_failing_at 15 (Exception ''boom''))) demo_argv =
     (SystemExit 1,
      (Boto3Resource ''ec2'' # demo_step1 @ demo_step2 @ demo_step3 @ demo_step4 @ demo_step5 @
        [Enter (Call_create_route_table ''vpc-1'' ''subnet-10.0.2.0/24'' None ''PrivateRouteTable''),
         Remote (CreateRouteTable ''vpc-1'') (Inr ''rtb-2''),
         Remote (CreateTags ''rtb-2'' ''Name'' (Str ''PrivateRouteTable'')) (Inr ''ok'')])
      @ Remote (AssociateWithSubnet ''rtb-2'' ''subnet-10.0.2.0/24'') (Inl (Exception ''boom''))
        # [Print (cross_mark @ '' Error: boom'')])"
  by code_simp

text \<open>
  C6 as stated fails. A client that raises in step 6, on the association of the private
  route table: the process ends with status 1 and the six lines below. The handle of
  the public route table, which was created, is in none of them, and neither is a
  name of the failing step.
\<close>

theorem failure_report_counterexample:
  "fst (main 4300 False (Inr (stub_failing_at 15 (Exception ''boom''))) demo_argv) = SystemExit 1
   \<and> created (snd (main 4300 False (Inr (stub_failing_at 15 (Exception ''boom''))) demo_argv)) =
       [''vpc-1'', ''igw-1'', ''subnet-10.0.1.0/24'', ''subnet-10.0.2.0/24'', ''rtb-1'', ''rtb-2'']
   \<and> stdout_of (snd (main 4300 False (Inr (stub_failing_at 15 (Exception ''boom''))) demo_argv)) =
       [check_mark @ '' Created VPC: vpc-1'',
        check_mark @ '' Created and attached Internet Gateway: igw-1'',
        check_mark @ '' Created Subnet: subnet-10.0.1.0/24 (PublicSubnet)'',
        check_mark @ '' Created Subnet: subnet-10.0.2.0/24 (PrivateSubnet)'',
        check_mark @ '' Public Route added to IGW in PublicRouteTable'',
        cross_mark @ '' Error: boom'']
   \<and> \<not> list_ex (mentions ''rtb-1'')
        (stdout_of (snd (main 4300 False (Inr (stub_failing_at 15 (Exception ''boom''))) demo_argv)))
   \<and> \<not> list_ex (mentions ''PrivateRouteTable'')
        (stdout_of (snd (main 4300 False (Inr (stub_failing_at 15 (Exception ''boom''))) demo_argv)))
   \<and> \<not> list_ex (mentions ''create_route_table'')
        (stdout_of (snd (main 4300 False (Inr (stub_failing_at 15 (Exception ''boom''))) demo_argv)))"
  by code_simp

lemma created_failed: "created (Remote rq (Inl e) # evs) = created evs"
  by (cases rq) simp_all

text \<open>
  C6, amended. A run in which a request of the \<open>k\<close>-th step raises an \<open>Exception\<close> ends
  with exit status 1. What it has printed is exactly the confirmation lines of the
  \<open>k - 1\<close> steps that completed, in order, followed by the one line
  \<open>Error: text\<close> with the text of the exception. The confirmation lines show the
  handles of the VPC, the gateway and the two subnets; the line of the public route
  table shows the name of the table and not its handle. \<open>main\<close> adds no step name and
  no list of handles: about the failing step the result holds what the text of the
  exception says.
\<close>

theorem failure_report:
  assumes run: "main max_str_digits strips_dashes boto3_resource argv = (out, evs)"
    and fail: "evs = pre @ Remote rq (Inl (Exception msg)) # post"
  shows "out = SystemExit 1
         \<and> post = [Print (cross_mark @ '' Error: '' @ msg)]
         \<and> 1 \<le> length (steps_of pre) \<and> length (steps_of pre) \<le> 6
         \<and> length (stdout_of pre) = length (steps_of pre) - 1
         \<and> stdout_of pre =
             take (length (steps_of pre) - 1) (confirmation_lines (created pre))
         \<and> stdout_of evs = stdout_of pre @ [cross_mark @ '' Error: '' @ msg]"
proof -
  from main_failure [OF run fail] obtain a ec2 where
    p: "provision ec2 a [Boto3Resource ''ec2''] =
          (Inl (Exception msg), pre @ [Remote rq (Inl (Exception msg))])"
    and rest: "post = [Print (cross_mark @ '' Error: '' @ msg)]" "out = SystemExit 1"
    by auto
  have eqs: "steps_of (pre @ [Remote rq (Inl (Exception msg))]) = steps_of pre"
    "stdout_of (pre @ [Remote rq (Inl (Exception msg))]) = stdout_of pre"
    "created (pre @ [Remote rq (Inl (Exception msg))]) = created pre"
    by (simp_all add: stdout_of_append steps_of_append created_append created_failed)
  from confirmations_provision [OF p]
  have lines: "1 \<le> length (steps_of pre) \<and> length (steps_of pre) \<le> 6
      \<and> length (stdout_of pre) = length (steps_of pre) - 1
      \<and> stdout_of pre = take (length (steps_of pre) - 1) (confirmation_lines (created pre))"
    unfolding eqs .
  from fail rest have "stdout_of evs = stdout_of pre @ [cross_mark @ '' Error: '' @ msg]"
    by (simp add: stdout_of_append)
  with rest lines show ?thesis
    by blast
qed

theorem failure_report_witness:
  "stdout_of
     (Boto3Resource ''ec2'' # demo_step1 @ demo_step2 @ demo_step3 @ demo_step4 @ demo_step5 @
      [Enter (Call_create_route_table ''vpc-1'' ''subnet-10.0.2.0/24'' None ''PrivateRouteTable''),
       Remote (CreateRouteTable ''vpc-1'') (Inr ''rtb-2''),
       Remote (CreateTags ''rtb-2'' ''Name'' (Str ''PrivateRouteTable'')) (Inr ''ok'')]) =
   take
     (length (steps_of
       (Boto3Resource ''ec2'' # demo_step1 @ demo_step2 @ demo_step3 @ demo_step4 @ demo_step5 @
        [Enter (Call_create_route_table ''vpc-1'' ''subnet-10.0.2.0/24'' None ''PrivateRouteTable''),
         Remote (CreateRouteTable ''vpc-1'') (Inr ''rtb-2''),
         Remote (CreateTags ''rtb-2'' ''Name'' (Str ''PrivateRouteTable'')) (Inr ''ok'')])) - 1)
     (confirmation_lines
       (created
         (Boto3Resource ''ec2'' # demo_step1 @ demo_step2 @ demo_step3 @ demo_step4 @ demo_step5 @
          [Enter (Call_create_route_table ''vpc-1'' ''subnet-10.0.2.0/24'' None ''PrivateRouteTable''),
           Remote (CreateRouteTable ''vpc-1'') (Inr ''rtb-2''),
           Remote (CreateTags ''rtb-2'' ''Name'' (Str ''PrivateRouteTable'')) (Inr ''ok'')])))"
  using failure_report [OF run_failing_at_15 refl] by blast

end
